theory Spec2Isabelle
  imports Main
begin

section \<open>Python strings and JSON values\<close>

text \<open>
  The program is \<^verbatim>\<open>reformat_monster.py\<close>. Its input is what \<^verbatim>\<open>json.load\<close> returns: nested
  Python values. A Python \<^verbatim>\<open>str\<close> is a sequence of Unicode code points, so a string is a list
  of code points here (\<open>ustr\<close>); \<open>u\<close> turns an ASCII literal into one.

  A JSON number with a fraction or an exponent (a Python \<^verbatim>\<open>float\<close>) is outside the model:
  the values are \<^verbatim>\<open>None\<close>, \<^verbatim>\<open>bool\<close>, \<^verbatim>\<open>int\<close>, \<^verbatim>\<open>str\<close>, \<^verbatim>\<open>list\<close> and \<^verbatim>\<open>dict\<close>.
  A \<^verbatim>\<open>dict\<close> is the list of its items in insertion order; a Python dict has every key once, so
  the dicts of the program are the \<open>JObj\<close> lists with distinct keys.
\<close>

type_synonym ustr = "nat list"

definition u :: "string \<Rightarrow> ustr" where
  "u s = map of_char s"

datatype json =
    JNull
  | JBool bool
  | JInt int
  | JStr ustr
  | JList "json list"
  | JObj "(ustr \<times> json) list"

text \<open>The exceptions the program can raise, by class; a \<^verbatim>\<open>KeyError\<close> carries the key.\<close>

datatype exc =
    KeyError json
  | TypeError
  | IndexError
  | AttributeError
  | ValueError
  | SystemExit

definition ebind :: "exc + 'a \<Rightarrow> ('a \<Rightarrow> exc + 'b) \<Rightarrow> exc + 'b" where
  "ebind m f = (case m of Inl e \<Rightarrow> Inl e | Inr v \<Rightarrow> f v)"

text \<open>A loop that builds a list and stops at the first element that raises.\<close>

fun emap :: "('a \<Rightarrow> exc + 'b) \<Rightarrow> 'a list \<Rightarrow> exc + 'b list" where
  "emap f [] = Inr []"
| "emap f (x # xs) = ebind (f x) (\<lambda>y. ebind (emap f xs) (\<lambda>ys. Inr (y # ys)))"

subsection \<open>Rendering: \<^verbatim>\<open>str\<close>, \<^verbatim>\<open>repr\<close>, \<^verbatim>\<open>format\<close>\<close>

fun digits :: "nat \<Rightarrow> ustr" where
  "digits n = (if n < 10 then [48 + n] else digits (n div 10) @ [48 + n mod 10])"

declare digits.simps [simp del]

definition str_int :: "int \<Rightarrow> ustr" where
  "str_int i = (if i < 0 then 45 # digits (nat (- i)) else digits (nat i))"

definition hexdigit :: "nat \<Rightarrow> nat" where
  "hexdigit d = (if d < 10 then 48 + d else 87 + d)"

primrec hexn :: "nat \<Rightarrow> nat \<Rightarrow> ustr" where
  "hexn 0 n = []"
| "hexn (Suc k) n = hexn k (n div 16) @ [hexdigit (n mod 16)]"

text \<open>
  The codec \<^verbatim>\<open>unicode_escape\<close> of CPython, character by character: printable ASCII is
  copied, but a backslash is doubled; tab, newline and carriage return get their letter;
  every other code point below 256 is \<^verbatim>\<open>\xhh\<close>, below 65536 \<^verbatim>\<open>\uhhhh\<close>, and
  \<^verbatim>\<open>\Uhhhhhhhh\<close> above.
\<close>

definition unicode_escape_char :: "nat \<Rightarrow> ustr" where
  "unicode_escape_char c =
     (if c < 256 then
        (if 32 \<le> c \<and> c < 127 then (if c = 92 then [92, 92] else [c])
         else if c = 9 then [92, 116]
         else if c = 10 then [92, 110]
         else if c = 13 then [92, 114]
         else [92, 120] @ hexn 2 c)
      else if c < 65536 then [92, 117] @ hexn 4 c
      else [92, 85] @ hexn 8 c)"

definition unicode_escape :: "ustr \<Rightarrow> ustr" where
  "unicode_escape s = concat (map unicode_escape_char s)"

text \<open>
  \<^verbatim>\<open>repr\<close> of a string. Whether a code point from 128 on is printable is a table of the
  Unicode database of the interpreter; it is the parameter \<open>P\<close> of everything that renders.
\<close>

definition repr_quote :: "ustr \<Rightarrow> nat" where
  "repr_quote s = (if 39 \<in> set s \<and> 34 \<notin> set s then 34 else 39)"

definition repr_char :: "(nat \<Rightarrow> bool) \<Rightarrow> nat \<Rightarrow> nat \<Rightarrow> ustr" where
  "repr_char P q c =
     (if c = q \<or> c = 92 then [92, c]
      else if c = 9 then [92, 116]
      else if c = 10 then [92, 110]
      else if c = 13 then [92, 114]
      else if c < 32 \<or> c = 127 then [92, 120] @ hexn 2 c
      else if c < 127 then [c]
      else if P c then [c]
      else if c < 256 then [92, 120] @ hexn 2 c
      else if c < 65536 then [92, 117] @ hexn 4 c
      else [92, 85] @ hexn 8 c)"

definition repr_str :: "(nat \<Rightarrow> bool) \<Rightarrow> ustr \<Rightarrow> ustr" where
  "repr_str P s = repr_quote s # concat (map (repr_char P (repr_quote s)) s) @ [repr_quote s]"

fun py_join :: "ustr \<Rightarrow> ustr list \<Rightarrow> ustr" where
  "py_join sep [] = []"
| "py_join sep [x] = x"
| "py_join sep (x # y # ys) = x @ sep @ py_join sep (y # ys)"

primrec py_repr :: "(nat \<Rightarrow> bool) \<Rightarrow> json \<Rightarrow> ustr" where
  "py_repr P JNull = u ''None''"
| "py_repr P (JBool b) = (if b then u ''True'' else u ''False'')"
| "py_repr P (JInt i) = str_int i"
| "py_repr P (JStr s) = repr_str P s"
| "py_repr P (JList xs) = u ''['' @ py_join (u '', '') (map (py_repr P) xs) @ u '']''"
| "py_repr P (JObj kvs) =
     u ''{'' @ py_join (u '', '')
       (map (\<lambda>kr. repr_str P (fst kr) @ u '': '' @ snd kr) (map (map_prod id (py_repr P)) kvs))
     @ u ''}''"

definition py_str :: "(nat \<Rightarrow> bool) \<Rightarrow> json \<Rightarrow> ustr" where
  "py_str P v = (case v of JStr s \<Rightarrow> s | _ \<Rightarrow> py_repr P v)"

text \<open>
  \<^verbatim>\<open>'{0:+}'.format(x)\<close>: an \<^verbatim>\<open>int\<close> (a \<^verbatim>\<open>bool\<close> is one) with its sign; a \<^verbatim>\<open>str\<close> refuses
  the sign with \<^verbatim>\<open>ValueError\<close>; \<^verbatim>\<open>None\<close>, a list and a dict refuse the format with
  \<^verbatim>\<open>TypeError\<close>.
\<close>

definition fmt_plus_int :: "int \<Rightarrow> ustr" where
  "fmt_plus_int i = (if i < 0 then str_int i else 43 # str_int i)"

definition fmt_plus :: "json \<Rightarrow> exc + ustr" where
  "fmt_plus v =
     (case v of
        JInt i \<Rightarrow> Inr (fmt_plus_int i)
      | JBool b \<Rightarrow> Inr (fmt_plus_int (if b then 1 else 0))
      | JStr s \<Rightarrow> Inl ValueError
      | _ \<Rightarrow> Inl TypeError)"

definition isinstance_int :: "json \<Rightarrow> bool" where
  "isinstance_int v = (case v of JInt i \<Rightarrow> True | JBool b \<Rightarrow> True | _ \<Rightarrow> False)"

definition is_None :: "json \<Rightarrow> bool" where
  "is_None v = (case v of JNull \<Rightarrow> True | _ \<Rightarrow> False)"

subsection \<open>Containers: subscripts, \<^verbatim>\<open>in\<close>, iteration, methods\<close>

text \<open>
  \<^verbatim>\<open>x['k']\<close> with a string key: only a dict takes it (\<^verbatim>\<open>KeyError\<close> when the key is absent);
  a list and a string want an integer, the other values have no subscript.
\<close>

definition sub_s :: "json \<Rightarrow> ustr \<Rightarrow> exc + json" where
  "sub_s c k =
     (case c of
        JObj kvs \<Rightarrow> (case map_of kvs k of None \<Rightarrow> Inl (KeyError (JStr k)) | Some v \<Rightarrow> Inr v)
      | _ \<Rightarrow> Inl TypeError)"

text \<open>
  \<^verbatim>\<open>xs[i]\<close> on a sequence: a negative index counts from the end, and an index outside
  the sequence raises \<^verbatim>\<open>IndexError\<close>.
\<close>

definition index_list :: "'a list \<Rightarrow> int \<Rightarrow> exc + 'a" where
  "index_list xs i =
     (if 0 \<le> i then
        (if i < int (length xs) then Inr (xs ! nat i) else Inl IndexError)
      else
        (if - int (length xs) \<le> i then Inr (xs ! nat (int (length xs) + i))
         else Inl IndexError))"

definition sub_i :: "json \<Rightarrow> int \<Rightarrow> exc + json" where
  "sub_i c i =
     (case c of
        JObj kvs \<Rightarrow> Inl (KeyError (JInt i))
      | JList xs \<Rightarrow> index_list xs i
      | JStr s \<Rightarrow> ebind (index_list s i) (\<lambda>ch. Inr (JStr [ch]))
      | _ \<Rightarrow> Inl TypeError)"

text \<open>\<^verbatim>\<open>x[k]\<close> where \<open>k\<close> is itself a value of the record (a loop variable).\<close>

definition sub_j :: "json \<Rightarrow> json \<Rightarrow> exc + json" where
  "sub_j c k =
     (case k of
        JStr s \<Rightarrow> sub_s c s
      | JInt i \<Rightarrow> sub_i c i
      | JBool b \<Rightarrow> (case c of JObj kvs \<Rightarrow> Inl (KeyError (JBool b))
                              | _ \<Rightarrow> sub_i c (if b then 1 else 0))
      | JNull \<Rightarrow> (case c of JObj kvs \<Rightarrow> Inl (KeyError JNull) | _ \<Rightarrow> Inl TypeError)
      | _ \<Rightarrow> Inl TypeError)"

fun is_infix :: "ustr \<Rightarrow> ustr \<Rightarrow> bool" where
  "is_infix k [] = (k = [])"
| "is_infix k (c # cs) = (take (length k) (c # cs) = k \<or> is_infix k cs)"

text \<open>\<^verbatim>\<open>'k' in x\<close>: a key of a dict, an element of a list, a substring of a string.\<close>

definition py_in_s :: "ustr \<Rightarrow> json \<Rightarrow> exc + bool" where
  "py_in_s k c =
     (case c of
        JObj kvs \<Rightarrow> Inr (k \<in> set (map fst kvs))
      | JList xs \<Rightarrow> Inr (JStr k \<in> set xs)
      | JStr s \<Rightarrow> Inr (is_infix k s)
      | _ \<Rightarrow> Inl TypeError)"

text \<open>\<^verbatim>\<open>for x in c\<close>: the keys of a dict, the elements of a list, the characters of a string.\<close>

definition py_iter :: "json \<Rightarrow> exc + json list" where
  "py_iter c =
     (case c of
        JObj kvs \<Rightarrow> Inr (map (\<lambda>kv. JStr (fst kv)) kvs)
      | JList xs \<Rightarrow> Inr xs
      | JStr s \<Rightarrow> Inr (map (\<lambda>ch. JStr [ch]) s)
      | _ \<Rightarrow> Inl TypeError)"

text \<open>The right operand of \<^verbatim>\<open>'text' + x\<close>, and the left one of \<^verbatim>\<open>x + 'text'\<close>, must be a string.\<close>

definition as_str :: "json \<Rightarrow> exc + ustr" where
  "as_str v = (case v of JStr s \<Rightarrow> Inr s | _ \<Rightarrow> Inl TypeError)"

text \<open>\<^verbatim>\<open>sep.join(xs)\<close> for a Python list \<open>xs\<close>, and for a value of the record.\<close>

definition join_list :: "ustr \<Rightarrow> json list \<Rightarrow> exc + ustr" where
  "join_list sep xs = ebind (emap as_str xs) (\<lambda>ss. Inr (py_join sep ss))"

definition join_json :: "ustr \<Rightarrow> json \<Rightarrow> exc + ustr" where
  "join_json sep v = ebind (py_iter v) (join_list sep)"

text \<open>\<^verbatim>\<open>s.replace(c, new)\<close> for a one-character \<open>c\<close>; only a string has the method.\<close>

definition replace_char :: "nat \<Rightarrow> ustr \<Rightarrow> ustr \<Rightarrow> ustr" where
  "replace_char c new s = concat (map (\<lambda>x. if x = c then new else [x]) s)"

definition meth_replace :: "nat \<Rightarrow> ustr \<Rightarrow> json \<Rightarrow> exc + ustr" where
  "meth_replace c new v = (case v of JStr s \<Rightarrow> Inr (replace_char c new s) | _ \<Rightarrow> Inl AttributeError)"

definition meth_keys :: "json \<Rightarrow> exc + json list" where
  "meth_keys v = (case v of JObj kvs \<Rightarrow> Inr (map (\<lambda>kv. JStr (fst kv)) kvs) | _ \<Rightarrow> Inl AttributeError)"

text \<open>
  \<^verbatim>\<open>==\<close> between two values: \<^verbatim>\<open>True\<close> and \<^verbatim>\<open>False\<close> are the integers 1 and 0, lists are
  compared element by element, dicts item by item whatever the order.
\<close>

primrec py_eq :: "json \<Rightarrow> json \<Rightarrow> bool" where
  "py_eq JNull = (\<lambda>b. case b of JNull \<Rightarrow> True | _ \<Rightarrow> False)"
| "py_eq (JBool c) = (\<lambda>b. case b of JBool d \<Rightarrow> c = d | JInt j \<Rightarrow> j = (if c then 1 else 0) | _ \<Rightarrow> False)"
| "py_eq (JInt i) = (\<lambda>b. case b of JInt j \<Rightarrow> i = j | JBool d \<Rightarrow> i = (if d then 1 else 0) | _ \<Rightarrow> False)"
| "py_eq (JStr s) = (\<lambda>b. case b of JStr t \<Rightarrow> s = t | _ \<Rightarrow> False)"
| "py_eq (JList xs) = (\<lambda>b. case b of JList ys \<Rightarrow> list_all2 (\<lambda>f y. f y) (map py_eq xs) ys | _ \<Rightarrow> False)"
| "py_eq (JObj kvs) =
     (\<lambda>b. case b of
        JObj lvs \<Rightarrow>
          length kvs = length lvs \<and>
          list_all (\<lambda>kf. case map_of lvs (fst kf) of None \<Rightarrow> False | Some w \<Rightarrow> snd kf w)
            (map (map_prod id py_eq) kvs)
      | _ \<Rightarrow> False)"

definition hashable :: "json \<Rightarrow> bool" where
  "hashable v = (case v of JList xs \<Rightarrow> False | JObj kvs \<Rightarrow> False | _ \<Rightarrow> True)"

section \<open>Output: prints and exceptions\<close>

text \<open>
  A run of a piece of the program is the list of what it printed, in order, and the
  exception that ended it, if one did. \<open>F l\<close> is \<^verbatim>\<open>print(..., file=f)\<close> of the text \<open>l\<close>
  (the newline that ends it is left out); \<open>D l\<close> is a \<^verbatim>\<open>print\<close> to the standard output, and
  \<open>DE e\<close> the \<^verbatim>\<open>print(e)\<close> of a caught exception.
\<close>

datatype out = F ustr | D ustr | DE exc

type_synonym run = "out list \<times> exc option"

definition skip :: run where
  "skip = ([], None)"

definition throw :: "exc \<Rightarrow> run" where
  "throw e = ([], Some e)"

definition emit :: "ustr \<Rightarrow> run" where
  "emit l = ([F l], None)"

definition seq :: "run \<Rightarrow> run \<Rightarrow> run" where
  "seq r1 r2 = (case snd r1 of Some e \<Rightarrow> r1 | None \<Rightarrow> (fst r1 @ fst r2, snd r2))"

definition seqs :: "run list \<Rightarrow> run" where
  "seqs rs = foldr seq rs skip"

text \<open>Evaluate an expression, which may raise, and go on with its value.\<close>

definition with_val :: "exc + 'a \<Rightarrow> ('a \<Rightarrow> run) \<Rightarrow> run" where
  "with_val m f = (case m of Inl e \<Rightarrow> throw e | Inr v \<Rightarrow> f v)"

text \<open>\<^verbatim>\<open>if 'k' in c: body\<close>.\<close>

definition when_in :: "ustr \<Rightarrow> json \<Rightarrow> run \<Rightarrow> run" where
  "when_in k c body = with_val (py_in_s k c) (\<lambda>b. if b then body else skip)"

text \<open>\<^verbatim>\<open>print(a, b, ...)\<close> joins the texts of its arguments with one space.\<close>

definition sp :: "ustr list \<Rightarrow> ustr" where
  "sp xs = py_join [32] xs"

definition wq :: "ustr \<Rightarrow> ustr" where
  "wq s = 34 # s @ [34]"

definition to_desc :: "(nat \<Rightarrow> bool) \<Rightarrow> json \<Rightarrow> run" where
  "to_desc P txt = emit (sp [u ''    desc:'', 34 # unicode_escape (py_str P txt) @ [34]])"

section \<open>The formatter \<^verbatim>\<open>write_monster_to_file\<close>, statement by statement\<close>

text \<open>
  The dictionary \<^verbatim>\<open>keys_used\<close> is only ever written (its one reader is behind
  \<^verbatim>\<open>debug = False\<close>), so it is left out. Of \<^verbatim>\<open>source_dict\<close>, written once and never read,
  the model keeps what the write can raise: \<open>sd\<close> says that it is not \<^verbatim>\<open>None\<close>.
\<close>

fun efold :: "('s \<Rightarrow> 'a \<Rightarrow> exc + 's) \<Rightarrow> 'a list \<Rightarrow> 's \<Rightarrow> exc + 's" where
  "efold f [] s = Inr s"
| "efold f (x # xs) s = ebind (f s x) (efold f xs)"

definition sub2 :: "json \<Rightarrow> ustr \<Rightarrow> ustr \<Rightarrow> exc + json" where
  "sub2 c a b = ebind (sub_s c a) (\<lambda>x. sub_s x b)"

text \<open>Lines 87 to 97: the front matter and the opening of the statblock.\<close>

definition front_matter :: "(nat \<Rightarrow> bool) \<Rightarrow> json \<Rightarrow> run" where
  "front_matter P monster_name =
     seqs [emit (u ''---''),
           emit (u ''statblock: inline''),
           emit (u ''tags: monster''),
           emit (sp [u ''name:'', py_str P monster_name]),
           emit (u ''---''),
           emit ([96, 96, 96] @ u ''statblock''),
           emit (u ''layout: Basic Pathfinder 1e Layout'')]"

text \<open>
  Lines 98 to 104. \<^verbatim>\<open>source_dict[source] = True\<close> raises \<^verbatim>\<open>TypeError\<close> when
  \<^verbatim>\<open>source_dict\<close> is \<^verbatim>\<open>None\<close> or \<open>source\<close> is a list or a dict; \<^verbatim>\<open>source[8:]\<close> raises it for
  every other value that is not a string. \<^verbatim>\<open>source[8:]\<close> is the string without its first
  eight characters.
\<close>

definition source_text :: "ustr \<Rightarrow> ustr" where
  "source_text source =
     (let s1 = (if drop 8 source = u ''Bestiary'' then u ''Pathfinder RPG '' @ source else source);
          s2 = (if 35 \<in> set s1 then replace_char 35 (u ''No. '') s1 else s1)
      in s2)"

definition source_line :: "bool \<Rightarrow> json \<Rightarrow> run" where
  "source_line sd monster_in =
     with_val (ebind (ebind (sub_s monster_in (u ''sources'')) (\<lambda>ss. sub_i ss 0))
                 (\<lambda>s0. sub_s s0 (u ''name'')))
       (\<lambda>source.
          if sd \<and> hashable source then
            (case source of
               JStr s \<Rightarrow> emit (sp [u ''source: '', wq (source_text s)])
             | _ \<Rightarrow> throw TypeError)
          else throw TypeError)"

text \<open>\<^verbatim>\<open>print(label, monster_in[key], file=f)\<close>\<close>

definition print_field :: "(nat \<Rightarrow> bool) \<Rightarrow> ustr \<Rightarrow> ustr \<Rightarrow> json \<Rightarrow> run" where
  "print_field P label key monster_in =
     with_val (sub_s monster_in key) (\<lambda>v. emit (sp [label, py_str P v]))"

text \<open>\<^verbatim>\<open>if key in monster_in: print(label, wq(', '.join(monster_in[key])), file=f)\<close>\<close>

definition print_joined :: "ustr \<Rightarrow> ustr \<Rightarrow> json \<Rightarrow> run" where
  "print_joined label key monster_in =
     when_in key monster_in
       (with_val (ebind (sub_s monster_in key) (join_json (u '', '')))
          (\<lambda>s. emit (sp [label, wq s])))"

text \<open>Lines 133 and 134.\<close>

definition subtypes_line :: "json \<Rightarrow> run" where
  "subtypes_line monster_in =
     when_in (u ''subtypes'') monster_in
       (with_val (ebind (sub_s monster_in (u ''subtypes'')) (join_json (u '', '')))
          (\<lambda>s. emit (u ''subtype: '' @ wq (u ''('' @ s @ u '')''))))"

text \<open>Lines 138 to 143.\<close>

definition fmt_all :: "json \<Rightarrow> exc + ustr list" where
  "fmt_all bonus = ebind (py_iter bonus) (emap fmt_plus)"

definition initiative_line :: "(nat \<Rightarrow> bool) \<Rightarrow> json \<Rightarrow> run" where
  "initiative_line P monster_in =
     with_val (sub2 monster_in (u ''initiative'') (u ''bonus''))
       (\<lambda>bonus.
          if isinstance_int bonus then
            with_val (fmt_plus bonus) (\<lambda>s. emit (sp [u ''INI:'', s]))
          else
            with_val (ebind (sub_s monster_in (u ''initiative'')) (py_in_s (u ''ability'')))
              (\<lambda>has_ability.
                 if has_ability then
                   with_val (fmt_all bonus)
                     (\<lambda>parts.
                        with_val (sub2 monster_in (u ''initiative'') (u ''ability''))
                          (\<lambda>ability.
                             emit (sp [u ''INI:'', py_join (u ''/'') parts @ u ''; '',
                                       py_str P ability])))
                 else
                   with_val (fmt_all bonus)
                     (\<lambda>parts. emit (sp [u ''INI:'', py_join (u ''/'') parts]))))"

text \<open>Lines 145 and 146: \<^verbatim>\<open>monster_in['skills']\<close> is read without a test that it is there.\<close>

definition perception_line :: "json \<Rightarrow> run" where
  "perception_line monster_in =
     with_val (ebind (sub_s monster_in (u ''skills'')) (py_in_s (u ''Perception'')))
       (\<lambda>has.
          if has then
            with_val (ebind (ebind (sub2 monster_in (u ''skills'') (u ''Perception''))
                               (\<lambda>p. sub_s p (u ''_''))) fmt_plus)
              (\<lambda>s. emit (sp [u ''perception:'', s]))
          else skip)"

text \<open>
  Lines 149 to 156. \<^verbatim>\<open>type(x)\<close> is a class object, and \<^verbatim>\<open>isinstance(type(x), int)\<close> asks
  whether that class object is an integer: no class is.
\<close>

datatype pytype = NoneType | BoolType | IntType | StrType | ListType | DictType

definition type_of :: "json \<Rightarrow> pytype" where
  "type_of v =
     (case v of JNull \<Rightarrow> NoneType | JBool b \<Rightarrow> BoolType | JInt i \<Rightarrow> IntType
      | JStr s \<Rightarrow> StrType | JList xs \<Rightarrow> ListType | JObj kvs \<Rightarrow> DictType)"

definition class_isinstance_int :: "pytype \<Rightarrow> bool" where
  "class_isinstance_int t = False"

definition sense_entry :: "(nat \<Rightarrow> bool) \<Rightarrow> json \<Rightarrow> json \<Rightarrow> exc + json" where
  "sense_entry P senses key =
     ebind (sub_j senses key)
       (\<lambda>v. if class_isinstance_int (type_of v)
             then ebind (as_str key) (\<lambda>k. Inr (JStr (k @ u '' '' @ py_str P v)))
             else Inr key)"

definition senses_line :: "(nat \<Rightarrow> bool) \<Rightarrow> json \<Rightarrow> run" where
  "senses_line P monster_in =
     when_in (u ''senses'') monster_in
       (with_val (sub_s monster_in (u ''senses''))
          (\<lambda>senses.
             with_val (ebind (ebind (py_iter senses) (emap (sense_entry P senses)))
                         (join_list (u '', '')))
               (\<lambda>s. emit (sp [u ''senses:'', wq s]))))"

text \<open>Lines 159 to 163.\<close>

definition names_of :: "json \<Rightarrow> exc + ustr" where
  "names_of xs =
     ebind (ebind (py_iter xs) (emap (\<lambda>a. sub_s a (u ''name'')))) (join_list (u '', ''))"

definition auras_line :: "json \<Rightarrow> run" where
  "auras_line monster_in =
     when_in (u ''auras'') monster_in
       (with_val (ebind (sub_s monster_in (u ''auras'')) names_of)
          (\<lambda>s. emit (sp [u ''aura:'', wq s])))"

text \<open>Lines 166 to 176.\<close>

definition ac_component :: "json \<Rightarrow> ustr list \<times> ustr \<Rightarrow> json \<Rightarrow> exc + ustr list \<times> ustr" where
  "ac_component comps st key =
     ebind (sub_j comps key)
       (\<lambda>v. if isinstance_int v
             then ebind (as_str key)
                    (\<lambda>k. ebind (fmt_plus v) (\<lambda>b. Inr (fst st @ [k @ u '' '' @ b], snd st)))
             else ebind (join_json (u '', '') v) (\<lambda>j. Inr (fst st, snd st @ u ''; '' @ j)))"

definition ac_text :: "(nat \<Rightarrow> bool) \<Rightarrow> json \<Rightarrow> exc + ustr" where
  "ac_text P monster_in =
     ebind (sub2 monster_in (u ''AC'') (u ''AC''))
       (\<lambda>a. ebind (sub2 monster_in (u ''AC'') (u ''touch''))
       (\<lambda>t. ebind (sub2 monster_in (u ''AC'') (u ''flat_footed''))
       (\<lambda>ff. Inr (py_str P a @ u '', touch '' @ py_str P t @ u '', flat-footed '' @ py_str P ff))))"

definition ac_line :: "(nat \<Rightarrow> bool) \<Rightarrow> json \<Rightarrow> run" where
  "ac_line P monster_in =
     with_val (ac_text P monster_in)
       (\<lambda>ac.
          with_val (ebind (sub_s monster_in (u ''AC'')) (py_in_s (u ''components'')))
            (\<lambda>has.
               if has then
                 with_val (ebind (sub2 monster_in (u ''AC'') (u ''components''))
                             (\<lambda>comps. ebind (py_iter comps)
                                (\<lambda>keys. efold (ac_component comps) keys ([], []))))
                   (\<lambda>st. emit (sp [u ''AC:'',
                                  wq (ac @ u '' ('' @ py_join (u '', '') (fst st) @ snd st @ u '')'')]))
               else emit (sp [u ''AC:'', wq ac])))"

text \<open>Lines 179 to 187.\<close>

definition hp_entry :: "(nat \<Rightarrow> bool) \<Rightarrow> json \<Rightarrow> ustr list \<Rightarrow> json \<Rightarrow> exc + ustr list" where
  "hp_entry P hp hp_special key =
     (if key = JStr (u ''HP'') then Inr hp_special
      else if key = JStr (u ''long'') then Inr hp_special
      else ebind (meth_replace 95 (u '' '') key)
             (\<lambda>k. ebind (sub_j hp key) (\<lambda>v. Inr (hp_special @ [k @ u '' '' @ py_str P v]))))"

definition hp_lines :: "(nat \<Rightarrow> bool) \<Rightarrow> json \<Rightarrow> run" where
  "hp_lines P monster_in =
     with_val (ebind (sub_s monster_in (u ''HP''))
                 (\<lambda>hp. ebind (py_iter hp) (\<lambda>keys. efold (hp_entry P hp) keys [])))
       (\<lambda>hp_special.
          seqs [with_val (sub2 monster_in (u ''HP'') (u ''HP''))
                  (\<lambda>v. emit (sp [u ''HP:'', py_str P v])),
                emit (sp [u ''HP_extra:'', wq (py_join (u ''; '') hp_special)]),
                with_val (sub2 monster_in (u ''HP'') (u ''long''))
                  (\<lambda>v. emit (sp [u ''HD:'', py_str P v]))])"

text \<open>Lines 190 to 193.\<close>

definition saves_text :: "json \<Rightarrow> exc + ustr" where
  "saves_text monster_in =
     ebind (ebind (sub2 monster_in (u ''saves'') (u ''fort'')) fmt_plus)
       (\<lambda>fo. ebind (ebind (sub2 monster_in (u ''saves'') (u ''ref'')) fmt_plus)
       (\<lambda>re. ebind (ebind (sub2 monster_in (u ''saves'') (u ''will'')) fmt_plus)
       (\<lambda>wi. Inr (u ''Fort '' @ fo @ u '', Ref '' @ re @ u '', Will '' @ wi))))"

definition saves_lines :: "json \<Rightarrow> run" where
  "saves_lines monster_in =
     seqs [with_val (saves_text monster_in) (\<lambda>s. emit (sp [u ''saves:'', wq s])),
           with_val (ebind (sub_s monster_in (u ''saves'')) (py_in_s (u ''other'')))
             (\<lambda>has.
                if has then
                  with_val (ebind (sub2 monster_in (u ''saves'') (u ''other'')) as_str)
                    (\<lambda>s. emit (sp [u ''saves_other:'', wq s]))
                else skip)]"

text \<open>Lines 200 to 204.\<close>

definition resist_entry :: "(nat \<Rightarrow> bool) \<Rightarrow> json \<Rightarrow> json \<Rightarrow> exc + ustr" where
  "resist_entry P res key =
     ebind (as_str key) (\<lambda>k. ebind (sub_j res key) (\<lambda>v. Inr (k @ u '' '' @ py_str P v)))"

definition resistances_line :: "(nat \<Rightarrow> bool) \<Rightarrow> json \<Rightarrow> run" where
  "resistances_line P monster_in =
     when_in (u ''resistances'') monster_in
       (with_val (ebind (sub_s monster_in (u ''resistances''))
                    (\<lambda>res. ebind (py_iter res) (emap (resist_entry P res))))
          (\<lambda>resist. emit (sp [u ''resist:'', wq (py_join (u '', '') resist)])))"

text \<open>Lines 207 to 211.\<close>

definition dr_entry :: "(nat \<Rightarrow> bool) \<Rightarrow> json \<Rightarrow> exc + ustr" where
  "dr_entry P dr_source =
     ebind (sub_s dr_source (u ''amount''))
       (\<lambda>a. ebind (ebind (sub_s dr_source (u ''weakness'')) as_str)
       (\<lambda>w. Inr (py_str P a @ u ''/'' @ w)))"

definition dr_line :: "(nat \<Rightarrow> bool) \<Rightarrow> json \<Rightarrow> run" where
  "dr_line P monster_in =
     when_in (u ''DR'') monster_in
       (with_val (ebind (ebind (sub_s monster_in (u ''DR'')) py_iter) (emap (dr_entry P)))
          (\<lambda>dr. emit (sp [u ''DR:'', wq (py_join (u '', '') dr)])))"

text \<open>\<^verbatim>\<open>if key in monster_in: print(label, monster_in[key], file=f)\<close>\<close>

definition print_optional :: "(nat \<Rightarrow> bool) \<Rightarrow> ustr \<Rightarrow> ustr \<Rightarrow> json \<Rightarrow> run" where
  "print_optional P label key monster_in =
     when_in key monster_in (print_field P label key monster_in)"

text \<open>
  Lines 226 to 244. A loop variable is compared with a string literal: it is equal when
  it is that string.
\<close>

definition base_text :: "(nat \<Rightarrow> bool) \<Rightarrow> json \<Rightarrow> exc + ustr list" where
  "base_text P speeds =
     ebind (py_in_s (u ''base'') speeds)
       (\<lambda>has. if has then ebind (sub_s speeds (u ''base'')) (\<lambda>b. Inr [py_str P b @ u '' ft.''])
               else Inr [])"

definition fly_text :: "(nat \<Rightarrow> bool) \<Rightarrow> json \<Rightarrow> exc + ustr list" where
  "fly_text P speeds =
     ebind (py_in_s (u ''fly'') speeds)
       (\<lambda>has_fly.
          if has_fly then
            ebind (py_in_s (u ''fly_maneuverability'') speeds)
              (\<lambda>has_man.
                 if has_man then
                   ebind (sub_s speeds (u ''fly''))
                     (\<lambda>fl. ebind (ebind (sub_s speeds (u ''fly_maneuverability'')) as_str)
                     (\<lambda>m. Inr [u ''fly '' @ py_str P fl @ u '' ft. ('' @ m @ u '')'']))
                 else
                   ebind (py_in_s (u ''fly_other'') speeds)
                     (\<lambda>has_other.
                        if has_other then
                          ebind (sub_s speeds (u ''fly''))
                            (\<lambda>fl. ebind (ebind (sub_s speeds (u ''fly_other'')) as_str)
                            (\<lambda>m. Inr [u ''fly '' @ py_str P fl @ u '' ft. ('' @ m @ u '')'']))
                        else
                          ebind (sub_s speeds (u ''fly''))
                            (\<lambda>fl. Inr [u ''fly '' @ py_str P fl @ u '' ft.''])))
          else Inr [])"

definition speed_entry :: "(nat \<Rightarrow> bool) \<Rightarrow> json \<Rightarrow> ustr list \<Rightarrow> json \<Rightarrow> exc + ustr list" where
  "speed_entry P speeds speed key =
     (if key = JStr (u ''base'') then Inr speed
      else if key = JStr (u ''fly'') then Inr speed
      else if key = JStr (u ''fly_maneuverability'') then Inr speed
      else if key = JStr (u ''base_other'') then
        ebind (sub_j speeds key) (\<lambda>v. Inr (speed @ [u '' '' @ py_str P v]))
      else
        ebind (as_str key)
          (\<lambda>k. ebind (sub_j speeds key) (\<lambda>v. Inr (speed @ [k @ u '' '' @ py_str P v @ u '' ft.'']))))"

definition speed_list :: "(nat \<Rightarrow> bool) \<Rightarrow> json \<Rightarrow> exc + ustr list" where
  "speed_list P speeds =
     ebind (base_text P speeds)
       (\<lambda>s0. ebind (fly_text P speeds)
       (\<lambda>s1. ebind (py_iter speeds)
       (\<lambda>keys. efold (speed_entry P speeds) keys (s0 @ s1))))"

definition speed_line :: "(nat \<Rightarrow> bool) \<Rightarrow> json \<Rightarrow> run" where
  "speed_line P monster_in =
     with_val (ebind (sub_s monster_in (u ''speeds'')) (speed_list P))
       (\<lambda>speed. emit (sp [u ''speed:'', wq (py_join (u '', '') speed)]))"

text \<open>Lines 247 to 258.\<close>

definition has_attack :: "json \<Rightarrow> ustr \<Rightarrow> exc + bool" where
  "has_attack monster_in kind =
     ebind (py_in_s (u ''attacks'') monster_in)
       (\<lambda>a. if a then ebind (sub_s monster_in (u ''attacks'')) (py_in_s kind) else Inr False)"

definition attack_texts :: "json \<Rightarrow> ustr \<Rightarrow> exc + ustr" where
  "attack_texts monster_in kind =
     ebind (ebind (ebind (ebind (sub2 monster_in (u ''attacks'') kind) (\<lambda>m. sub_i m 0)) py_iter)
              (emap (\<lambda>m. sub_s m (u ''text''))))
       (join_list (u '', ''))"

definition attack_line :: "ustr \<Rightarrow> ustr \<Rightarrow> json \<Rightarrow> run" where
  "attack_line label kind monster_in =
     with_val (has_attack monster_in kind)
       (\<lambda>b. if b then with_val (attack_texts monster_in kind) (\<lambda>s. emit (sp [label, wq s]))
             else skip)"

definition special_attacks_line :: "json \<Rightarrow> run" where
  "special_attacks_line monster_in =
     with_val (has_attack monster_in (u ''special''))
       (\<lambda>b. if b then
               with_val (ebind (sub2 monster_in (u ''attacks'') (u ''special'')) (join_json (u '', '')))
                 (\<lambda>s. emit (sp [u ''special_attacks:'', wq s]))
             else skip)"

text \<open>Lines 261 to 272.\<close>

definition space_line :: "(nat \<Rightarrow> bool) \<Rightarrow> json \<Rightarrow> run" where
  "space_line P monster_in =
     when_in (u ''space'') monster_in
       (with_val (sub_s monster_in (u ''space''))
          (\<lambda>v. emit (sp [u ''space:'', py_str P v, u ''ft.''])))"

definition reach_line :: "(nat \<Rightarrow> bool) \<Rightarrow> json \<Rightarrow> run" where
  "reach_line P monster_in =
     when_in (u ''reach'') monster_in
       (with_val (py_in_s (u ''reach_other'') monster_in)
          (\<lambda>has.
             if has then
               with_val (sub_s monster_in (u ''reach_other''))
                 (\<lambda>reach_other.
                    with_val (sub_s monster_in (u ''reach''))
                      (\<lambda>r. with_val (as_str reach_other)
                      (\<lambda>ro. emit (sp [u ''reach:'', py_str P r, u ''ft. ('' @ ro @ u '')'']))))
             else
               with_val (sub_s monster_in (u ''reach''))
                 (\<lambda>r. emit (sp [u ''reach:'', py_str P r, u ''ft.'']))))"

text \<open>Lines 275 to 279.\<close>

definition name_line :: "(nat \<Rightarrow> bool) \<Rightarrow> json \<Rightarrow> run" where
  "name_line P k = emit (sp [u ''  - name:'', py_str P k])"

definition tactics_block :: "(nat \<Rightarrow> bool) \<Rightarrow> json \<Rightarrow> run" where
  "tactics_block P monster_in =
     when_in (u ''tactics'') monster_in
       (seq (emit (u ''tactics:''))
          (with_val (ebind (sub_s monster_in (u ''tactics'')) py_iter)
             (\<lambda>ks. seqs (map (\<lambda>k. seq (name_line P k)
                                   (with_val (ebind (sub_s monster_in (u ''tactics''))
                                                (\<lambda>t. sub_j t k))
                                      (to_desc P)))
                           ks))))"

text \<open>Lines 282 to 288.\<close>

definition ability_scores_line :: "(nat \<Rightarrow> bool) \<Rightarrow> json \<Rightarrow> run" where
  "ability_scores_line P monster_in =
     with_val (emap (\<lambda>k. sub2 monster_in (u ''ability_scores'') k)
                 [u ''STR'', u ''DEX'', u ''CON'', u ''INT'', u ''WIS'', u ''CHA''])
       (\<lambda>vs. emit (sp [u ''pf1e_stats:'',
                      u ''['' @ py_join (u '', '') (map (py_str P) vs) @ u '']'']))"

text \<open>Lines 295 to 305, for \<^verbatim>\<open>CMB\<close> and for \<^verbatim>\<open>CMD\<close>.\<close>

definition maneuver_line :: "(nat \<Rightarrow> bool) \<Rightarrow> ustr \<Rightarrow> ustr \<Rightarrow> ustr \<Rightarrow> json \<Rightarrow> run" where
  "maneuver_line P label key key_other monster_in =
     with_val (py_in_s key_other monster_in)
       (\<lambda>has.
          if has then
            with_val (sub_s monster_in key)
              (\<lambda>v. with_val (ebind (sub_s monster_in key_other) as_str)
              (\<lambda>other. emit (sp [label, py_str P v, u ''('' @ other @ u '')''])))
          else print_field P label key monster_in)"

text \<open>Lines 308 to 312.\<close>

definition feats_line :: "json \<Rightarrow> run" where
  "feats_line monster_in =
     when_in (u ''feats'') monster_in
       (with_val (ebind (sub_s monster_in (u ''feats'')) names_of)
          (\<lambda>s. emit (sp [u ''feats:'', wq s])))"

text \<open>
  Lines 315 to 345. In the innermost loop every exception is caught: the handler prints
  it and four more lines on the standard output and ends the process with \<^verbatim>\<open>quit()\<close>; its
  own \<^verbatim>\<open>monster_in['title1']\<close> can raise in turn.
\<close>

definition skill_entry :: "json \<Rightarrow> ustr list \<Rightarrow> json \<Rightarrow> exc + ustr list" where
  "skill_entry skills acc s =
     (if s = JStr (u ''_racial_mods'') then Inr acc
      else
        ebind (ebind (sub_j skills s) (\<lambda>e. sub_s e (u ''_'')))
          (\<lambda>v. ebind (if is_None v then Inr [] else fmt_plus v)
          (\<lambda>val. ebind (as_str s)
          (\<lambda>k. Inr (acc @ [k @ u '' '' @ val])))))"

fun racial_inner :: "(nat \<Rightarrow> bool) \<Rightarrow> json \<Rightarrow> json \<Rightarrow> json \<Rightarrow> json list \<Rightarrow> run" where
  "racial_inner P monster_in s x [] = skip"
| "racial_inner P monster_in s x (k # ks) =
     (case sub_j x k of
        Inr v \<Rightarrow> seq (emit (sp [u ''-'', py_str P s, py_str P v])) (racial_inner P monster_in s x ks)
      | Inl e \<Rightarrow>
          seqs [([DE e], None),
                with_val (sub_s monster_in (u ''title1'')) (\<lambda>t. ([D (py_str P t)], None)),
                ([D (py_str P k)], None),
                ([D (py_str P s)], None),
                ([D (py_str P x)], None),
                throw SystemExit])"

definition racial_mod :: "(nat \<Rightarrow> bool) \<Rightarrow> json \<Rightarrow> json \<Rightarrow> json \<Rightarrow> run" where
  "racial_mod P monster_in mods s =
     with_val (sub_j mods s)
       (\<lambda>x. with_val (py_in_s (u ''_'') x)
       (\<lambda>has.
          if has then
            with_val (sub_s x (u ''_'')) (\<lambda>v. emit (sp [u ''-'', py_str P s, py_str P v]))
          else if s = JStr (u ''_other'') then emit (sp [u ''-'', py_str P x])
          else with_val (py_iter x) (racial_inner P monster_in s x)))"

definition skills_block :: "(nat \<Rightarrow> bool) \<Rightarrow> json \<Rightarrow> run" where
  "skills_block P monster_in =
     when_in (u ''skills'') monster_in
       (with_val (ebind (sub_s monster_in (u ''skills''))
                    (\<lambda>sk. ebind (meth_keys sk) (\<lambda>ks. efold (skill_entry sk) ks [])))
          (\<lambda>skills.
             seq (emit (sp [u ''skills:'', wq (py_join (u '', '') skills)]))
               (with_val (ebind (sub_s monster_in (u ''skills'')) (py_in_s (u ''_racial_mods'')))
                  (\<lambda>has.
                     if has then
                       seq (emit (u ''racial_modifiers:''))
                         (with_val (sub2 monster_in (u ''skills'') (u ''_racial_mods''))
                            (\<lambda>mods. with_val (py_iter mods)
                            (\<lambda>ss. seqs (map (racial_mod P monster_in mods) ss))))
                     else skip))))"

text \<open>Lines 356 to 360.\<close>

definition gear_block :: "(nat \<Rightarrow> bool) \<Rightarrow> json \<Rightarrow> run" where
  "gear_block P monster_in =
     when_in (u ''gear'') monster_in
       (seq (emit (u ''gear:''))
          (with_val (ebind (sub_s monster_in (u ''gear'')) py_iter)
             (\<lambda>ks. seqs (map (\<lambda>k. seq (name_line P k)
                                   (with_val (ebind (ebind (sub_s monster_in (u ''gear''))
                                                       (\<lambda>g. sub_j g k))
                                                (join_json (u '', '')))
                                      (\<lambda>s. to_desc P (JStr s))))
                           ks))))"

text \<open>Lines 363 to 375.\<close>

definition treasure_text :: "json \<Rightarrow> exc + ustr" where
  "treasure_text eco =
     ebind (ebind (sub_s eco (u ''treasure_type'')) as_str)
       (\<lambda>tt. ebind (ebind (sub_s eco (u ''treasure'')) (join_json (u '', '')))
       (\<lambda>j. Inr (tt @ u '' ('' @ j @ u '')'')))"

definition ecology_block :: "(nat \<Rightarrow> bool) \<Rightarrow> json \<Rightarrow> run" where
  "ecology_block P monster_in =
     when_in (u ''ecology'') monster_in
       (seq (emit (u ''ecology:''))
          (with_val (sub_s monster_in (u ''ecology''))
             (\<lambda>eco.
                seqs [when_in (u ''environment'') eco
                        (seq (emit (u ''  - name: Environment''))
                           (with_val (sub_s eco (u ''environment'')) (to_desc P))),
                      when_in (u ''organization'') eco
                        (seq (emit (u ''  - name: Organisation''))
                           (with_val (sub_s eco (u ''organization'')) (to_desc P))),
                      with_val (ebind (py_in_s (u ''treasure'') eco)
                                  (\<lambda>a. if a then py_in_s (u ''treasure_type'') eco else Inr False))
                        (\<lambda>both.
                           if both then
                             seq (emit (u ''  - name: Treasure''))
                               (with_val (treasure_text eco) (\<lambda>s. to_desc P (JStr s)))
                           else
                             when_in (u ''treasure_type'') eco
                               (with_val (sub_s eco (u ''treasure_type'')) (to_desc P)))])))"

text \<open>Lines 378 to 382.\<close>

definition special_abilities_block :: "(nat \<Rightarrow> bool) \<Rightarrow> json \<Rightarrow> run" where
  "special_abilities_block P monster_in =
     when_in (u ''special_abilities'') monster_in
       (seq (emit (u ''special_abilities:''))
          (with_val (ebind (sub_s monster_in (u ''special_abilities'')) meth_keys)
             (\<lambda>ks. seqs (map (\<lambda>sa. seq (name_line P sa)
                                    (with_val (ebind (sub_s monster_in (u ''special_abilities''))
                                                 (\<lambda>t. sub_j t sa))
                                       (to_desc P)))
                           ks))))"

text \<open>
  Lines 385 to 421. The local dict \<^verbatim>\<open>spells\<close> is the list of its items in insertion order;
  an assignment to a key it has keeps the key's place.
\<close>

fun dict_set :: "('k \<times> 'v) list \<Rightarrow> 'k \<Rightarrow> 'v \<Rightarrow> ('k \<times> 'v) list" where
  "dict_set [] k v = [(k, v)]"
| "dict_set (p # ps) k v = (if fst p = k then (k, v) # ps else p # dict_set ps k v)"

definition spell_count :: "(nat \<Rightarrow> bool) \<Rightarrow> json \<Rightarrow> exc + ustr" where
  "spell_count P entry =
     ebind (py_in_s (u ''count'') entry)
       (\<lambda>has. if has then ebind (sub_s entry (u ''count'')) (\<lambda>c. Inr (py_str P c @ u ''x''))
               else Inr [])"

definition spell_dc :: "(nat \<Rightarrow> bool) \<Rightarrow> json \<Rightarrow> exc + ustr" where
  "spell_dc P entry =
     ebind (py_in_s (u ''DC'') entry)
       (\<lambda>has. if has then ebind (sub_s entry (u ''DC'')) (\<lambda>d. Inr (u '' (DC'' @ py_str P d @ u '')''))
               else Inr [])"

definition spell_entry ::
  "(nat \<Rightarrow> bool) \<Rightarrow> (ustr \<times> ustr) list \<Rightarrow> json \<Rightarrow> exc + (ustr \<times> ustr) list" where
  "spell_entry P spells entry =
     ebind (sub_s entry (u ''level''))
       (\<lambda>lv. ebind (spell_count P entry)
       (\<lambda>this_count. ebind (spell_dc P entry)
       (\<lambda>this_dc. ebind (ebind (sub_s entry (u ''name'')) as_str)
       (\<lambda>name.
          Inr (case map_of spells (py_str P lv) of
                 Some old \<Rightarrow>
                   dict_set spells (py_str P lv) (old @ u '', '' @ (this_count @ name) @ this_dc)
               | None \<Rightarrow> dict_set spells (py_str P lv) ((this_count @ name) @ this_dc))))))"

definition spells_dict :: "(nat \<Rightarrow> bool) \<Rightarrow> json \<Rightarrow> exc + (ustr \<times> ustr) list" where
  "spells_dict P monster_in =
     ebind (ebind (sub2 monster_in (u ''spells'') (u ''entries'')) py_iter)
       (\<lambda>entries. efold (spell_entry P) entries [])"

definition nth_suffix :: "(ustr \<times> ustr) list" where
  "nth_suffix = [(u ''1'', u ''st''), (u ''2'', u ''nd''), (u ''3'', u ''rd'')]"

definition level_ordinal :: "ustr \<Rightarrow> ustr" where
  "level_ordinal key =
     (case map_of nth_suffix key of
        Some suffix \<Rightarrow> key @ suffix
      | None \<Rightarrow> if key = u ''0'' then key else key @ u ''th'')"

definition has_slot :: "json \<Rightarrow> ustr \<Rightarrow> exc + bool" where
  "has_slot source key =
     ebind (py_in_s (u ''slots'') source)
       (\<lambda>a. if a then ebind (sub_s source (u ''slots'')) (py_in_s key) else Inr False)"

definition spell_header :: "(nat \<Rightarrow> bool) \<Rightarrow> json \<Rightarrow> ustr \<Rightarrow> exc + ustr" where
  "spell_header P source key =
     ebind (has_slot source key)
       (\<lambda>b. if b then
               (if key = u ''0'' then Inr (level_ordinal key @ u '' (at-will)'')
                else ebind (sub2 source (u ''slots'') key)
                       (\<lambda>n. Inr (level_ordinal key @ u '' ('' @ py_str P n @ u ''/day)'')))
             else Inr (level_ordinal key))"

definition spell_level_lines :: "(nat \<Rightarrow> bool) \<Rightarrow> json \<Rightarrow> ustr \<times> ustr \<Rightarrow> run" where
  "spell_level_lines P source item =
     with_val (spell_header P source (fst item))
       (\<lambda>header. seq (emit (sp [u ''  - name:'', header])) (to_desc P (JStr (snd item))))"

definition spells_kind_line :: "json \<Rightarrow> run" where
  "spells_kind_line source =
     with_val (sub_s source (u ''type''))
       (\<lambda>t. if t = JStr (u ''prepared'') then emit (u ''spells_prepared:'')
             else if t = JStr (u ''known'') then emit (u ''known_spells:'')
             else skip)"

definition spells_source :: "(nat \<Rightarrow> bool) \<Rightarrow> json \<Rightarrow> json \<Rightarrow> run" where
  "spells_source P monster_in source =
     seqs [spells_kind_line source,
           emit (u ''  - name:''),
           with_val (sub_s source (u ''CL''))
             (\<lambda>cl. to_desc P (JStr (u ''(CL '' @ py_str P cl @ u '')''))),
           with_val (spells_dict P monster_in)
             (\<lambda>spells. seqs (map (spell_level_lines P source) spells))]"

definition spells_block :: "(nat \<Rightarrow> bool) \<Rightarrow> json \<Rightarrow> run" where
  "spells_block P monster_in =
     when_in (u ''spells'') monster_in
       (with_val (ebind (sub2 monster_in (u ''spells'') (u ''sources'')) py_iter)
          (\<lambda>sources. seqs (map (spells_source P monster_in) sources)))"

text \<open>Lines 424 to 439.\<close>

definition psychic_entry :: "(nat \<Rightarrow> bool) \<Rightarrow> json \<Rightarrow> exc + json" where
  "psychic_entry P entry =
     ebind (py_in_s (u ''DC'') entry)
       (\<lambda>has_dc. ebind (if has_dc then ebind (sub_s entry (u ''DC''))
                                          (\<lambda>d. Inr (u ''; DC'' @ py_str P d))
                         else Inr [])
       (\<lambda>this_dc. ebind (py_in_s (u ''PE'') entry)
       (\<lambda>has_pe.
          if has_pe then
            ebind (ebind (sub_s entry (u ''name'')) as_str)
              (\<lambda>n. ebind (sub_s entry (u ''PE''))
              (\<lambda>pe. Inr (JStr (n @ u '' (PE'' @ py_str P pe @ this_dc @ u '')''))))
          else sub_s entry (u ''name''))))"

definition concentration_text :: "(nat \<Rightarrow> bool) \<Rightarrow> ustr \<Rightarrow> json \<Rightarrow> exc + ustr" where
  "concentration_text P lead source =
     ebind (sub_s source (u ''CL''))
       (\<lambda>cl. ebind (ebind (sub_s source (u ''concentration'')) fmt_plus)
       (\<lambda>c. Inr (lead @ py_str P cl @ u ''; Concentration '' @ c @ u '')'')))"

definition psychic_source :: "(nat \<Rightarrow> bool) \<Rightarrow> json \<Rightarrow> json \<Rightarrow> run" where
  "psychic_source P monster_in source =
     seqs [emit (u ''psychic_magic:''),
           emit (u ''  - name:''),
           with_val (concentration_text P [] source) (\<lambda>s. to_desc P (JStr s)),
           with_val (ebind (ebind (sub2 monster_in (u ''psychic_magic'') (u ''entries'')) py_iter)
                       (emap (psychic_entry P)))
             (\<lambda>psychic_magic.
                seq (with_val (sub2 monster_in (u ''psychic_magic'') (u ''PE''))
                       (\<lambda>pe. emit (sp [u ''  - name:'', py_str P pe, u ''PE''])))
                  (with_val (join_list (u '', '') psychic_magic) (\<lambda>s. to_desc P (JStr s))))]"

definition psychic_block :: "(nat \<Rightarrow> bool) \<Rightarrow> json \<Rightarrow> run" where
  "psychic_block P monster_in =
     when_in (u ''psychic_magic'') monster_in
       (with_val (ebind (sub2 monster_in (u ''psychic_magic'') (u ''sources'')) py_iter)
          (\<lambda>sources. seqs (map (psychic_source P monster_in) sources)))"

text \<open>
  Lines 442 to 471. The keys of the local dict \<^verbatim>\<open>sla\<close> are values of the record: a list or
  a dict cannot be a key (\<^verbatim>\<open>TypeError\<close>), and two keys are the same when they are \<^verbatim>\<open>==\<close>.
\<close>

fun sla_get :: "(json \<times> ustr) list \<Rightarrow> json \<Rightarrow> ustr option" where
  "sla_get [] k = None"
| "sla_get (p # ps) k = (if py_eq (fst p) k then Some (snd p) else sla_get ps k)"

fun sla_set :: "(json \<times> ustr) list \<Rightarrow> json \<Rightarrow> ustr \<Rightarrow> (json \<times> ustr) list" where
  "sla_set [] k v = [(k, v)]"
| "sla_set (p # ps) k v = (if py_eq (fst p) k then (fst p, v) # ps else p # sla_set ps k v)"

definition sla_dc :: "(nat \<Rightarrow> bool) \<Rightarrow> json \<Rightarrow> exc + ustr" where
  "sla_dc P entry =
     ebind (py_in_s (u ''DC'') entry)
       (\<lambda>has. if has then ebind (sub_s entry (u ''DC'')) (\<lambda>d. Inr (u '' (DC '' @ py_str P d @ u '')''))
               else Inr [])"

definition sla_entry ::
  "(nat \<Rightarrow> bool) \<Rightarrow> json \<Rightarrow> (json \<times> ustr) list \<Rightarrow> json \<Rightarrow> exc + (json \<times> ustr) list" where
  "sla_entry P source_name sla entry =
     ebind (sub_s entry (u ''source''))
       (\<lambda>es.
          if py_eq es source_name then
            ebind (sub_s entry (u ''freq''))
              (\<lambda>freq.
                 if hashable freq then
                   ebind (sla_dc P entry)
                     (\<lambda>dc. ebind (ebind (sub_s entry (u ''name'')) as_str)
                     (\<lambda>name.
                        Inr (case sla_get sla freq of
                               Some old \<Rightarrow> sla_set sla freq (old @ u '', '' @ name @ dc)
                             | None \<Rightarrow> sla_set sla freq (name @ dc))))
                 else Inl TypeError)
          else Inr sla)"

definition sla_dict :: "(nat \<Rightarrow> bool) \<Rightarrow> json \<Rightarrow> json \<Rightarrow> exc + (json \<times> ustr) list" where
  "sla_dict P monster_in source_name =
     ebind (ebind (sub2 monster_in (u ''spell_like_abilities'') (u ''entries'')) py_iter)
       (\<lambda>entries. efold (sla_entry P source_name) entries [])"

definition sla_source :: "(nat \<Rightarrow> bool) \<Rightarrow> json \<Rightarrow> json \<Rightarrow> run" where
  "sla_source P monster_in source =
     with_val (sub_s source (u ''name''))
       (\<lambda>source_name.
          seqs [if source_name = JStr (u ''default'') then emit (u ''  - name:'')
                else name_line P source_name,
                with_val (py_in_s (u ''concentration'') source)
                  (\<lambda>has.
                     if has then
                       with_val (concentration_text P (u ''(CL '') source) (\<lambda>s. to_desc P (JStr s))
                     else
                       with_val (sub_s source (u ''CL''))
                         (\<lambda>cl. to_desc P (JStr (u ''(CL '' @ py_str P cl @ u '')'')))),
                with_val (sla_dict P monster_in source_name)
                  (\<lambda>sla. seqs (map (\<lambda>item. seq (name_line P (fst item))
                                              (to_desc P (JStr (snd item))))
                                  sla))])"

definition sla_block :: "(nat \<Rightarrow> bool) \<Rightarrow> json \<Rightarrow> run" where
  "sla_block P monster_in =
     when_in (u ''spell_like_abilities'') monster_in
       (seq (emit (u ''spell-like_abilities:''))
          (with_val (ebind (sub2 monster_in (u ''spell_like_abilities'') (u ''sources'')) py_iter)
             (\<lambda>sources. seqs (map (sla_source P monster_in) sources))))"

text \<open>Lines 474 to 478.\<close>

definition sources_entry :: "(nat \<Rightarrow> bool) \<Rightarrow> json \<Rightarrow> run" where
  "sources_entry P source =
     seq (with_val (ebind (sub_s source (u ''name'')) (meth_replace 35 (u ''No. '')))
            (\<lambda>n. emit (sp [u ''  - name:'', wq n])))
       (with_val (sub_s source (u ''page'')) (\<lambda>pg. to_desc P (JStr (py_str P pg))))"

definition sources_block :: "(nat \<Rightarrow> bool) \<Rightarrow> json \<Rightarrow> run" where
  "sources_block P monster_in =
     when_in (u ''sources'') monster_in
       (seq (emit (u ''sources:''))
          (with_val (ebind (sub_s monster_in (u ''sources'')) py_iter)
             (\<lambda>sources. seqs (map (sources_entry P) sources))))"

text \<open>Lines 487 to 499.\<close>

definition desc_long_block :: "(nat \<Rightarrow> bool) \<Rightarrow> json \<Rightarrow> run" where
  "desc_long_block P monster_in =
     when_in (u ''desc_long'') monster_in
       (seq (emit (u ''# Description''))
          (with_val (sub_s monster_in (u ''desc_long'')) (\<lambda>d. emit (py_str P d))))"

definition source_link :: "ustr option \<Rightarrow> run" where
  "source_link url =
     (case url of
        None \<Rightarrow> skip
      | Some link \<Rightarrow>
          seq (emit (u ''# Source Link'')) (emit (u ''[Archives of Nethys]('' @ link @ u '')'')))"

definition encounter_table :: "(nat \<Rightarrow> bool) \<Rightarrow> json \<Rightarrow> run" where
  "encounter_table P monster_name =
     seqs [emit ([96, 96, 96] @ u ''encounter-table''),
           emit (sp [u ''name:'', py_str P monster_name]),
           emit (u ''creatures:''),
           emit (sp [u ''  - 1:'', py_str P monster_name]),
           emit [96, 96, 96]]"

text \<open>The whole function, lines 84 to 499.\<close>

definition write_monster_to_file :: "(nat \<Rightarrow> bool) \<Rightarrow> json \<Rightarrow> bool \<Rightarrow> ustr option \<Rightarrow> run" where
  "write_monster_to_file P monster_in sd url =
     with_val (sub_s monster_in (u ''title2''))
       (\<lambda>monster_name.
          seqs [front_matter P monster_name,
                source_line sd monster_in,
                print_field P (u ''Monster_CR:'') (u ''CR'') monster_in,
                emit (sp [u ''name:'', py_str P monster_name]),
                print_field P (u ''Monster_XP:'') (u ''XP'') monster_in,
                print_optional P (u ''race:'') (u ''race'') monster_in,
                print_joined (u ''class:'') (u ''classes'') monster_in,
                print_field P (u ''alignment:'') (u ''alignment'') monster_in,
                print_field P (u ''size:'') (u ''size'') monster_in,
                print_field P (u ''type:'') (u ''type'') monster_in,
                subtypes_line monster_in,
                initiative_line P monster_in,
                perception_line monster_in,
                senses_line P monster_in,
                auras_line monster_in,
                ac_line P monster_in,
                hp_lines P monster_in,
                saves_lines monster_in,
                print_joined (u ''immune:'') (u ''immunities'') monster_in,
                resistances_line P monster_in,
                dr_line P monster_in,
                print_joined (u ''defensive_abilities:'') (u ''defensive_abilities'') monster_in,
                print_optional P (u ''SR:'') (u ''SR'') monster_in,
                print_joined (u ''weak:'') (u ''weaknesses'') monster_in,
                speed_line P monster_in,
                attack_line (u ''melee:'') (u ''melee'') monster_in,
                attack_line (u ''ranged:'') (u ''ranged'') monster_in,
                special_attacks_line monster_in,
                space_line P monster_in,
                reach_line P monster_in,
                tactics_block P monster_in,
                ability_scores_line P monster_in,
                print_field P (u ''BAB:'') (u ''BAB'') monster_in,
                maneuver_line P (u ''CMB:'') (u ''CMB'') (u ''CMB_other'') monster_in,
                maneuver_line P (u ''CMD:'') (u ''CMD'') (u ''CMD_other'') monster_in,
                feats_line monster_in,
                skills_block P monster_in,
                print_joined (u ''languages:'') (u ''languages'') monster_in,
                print_joined (u ''special_qualities:'') (u ''special_qualities'') monster_in,
                gear_block P monster_in,
                ecology_block P monster_in,
                special_abilities_block P monster_in,
                spells_block P monster_in,
                psychic_block P monster_in,
                sla_block P monster_in,
                sources_block P monster_in,
                print_optional P (u ''desc_short:'') (u ''desc_short'') monster_in,
                emit [96, 96, 96],
                desc_long_block P monster_in,
                source_link url,
                encounter_table P monster_name])"

section \<open>Writing a file, and the batch loop\<close>

text \<open>
  The file system is a map from a path to the lines printed into the file at that path;
  the console is what was printed on the standard output, in order. \<open>DErr e key\<close> is the
  line of \<^verbatim>\<open>print('ERROR: ', e, 'with', key)\<close>: the text of \<open>e\<close> is CPython's message, which
  for a \<^verbatim>\<open>KeyError\<close> is the \<^verbatim>\<open>repr\<close> of the key. Creating a file at a path that does not
  exist succeeds.
\<close>

datatype console_line = Out out | DErr exc ustr

record world =
  files :: "ustr \<Rightarrow> ustr list option"
  console :: "console_line list"

definition file_lines :: "out list \<Rightarrow> ustr list" where
  "file_lines os = concat (map (\<lambda>x. case x of F l \<Rightarrow> [l] | _ \<Rightarrow> []) os)"

definition console_items :: "out list \<Rightarrow> console_line list" where
  "console_items os = concat (map (\<lambda>x. case x of F l \<Rightarrow> [] | _ \<Rightarrow> [Out x]) os)"

definition to_console :: "out \<Rightarrow> console_line" where
  "to_console x = (case x of F l \<Rightarrow> Out (D l) | _ \<Rightarrow> Out x)"

definition exists_message :: "ustr \<Rightarrow> ustr option \<Rightarrow> console_line" where
  "exists_message filename url =
     Out (D (sp [u ''ERROR: file'', filename, u ''already exists while processing key'',
                 (case url of None \<Rightarrow> u ''None'' | Some k \<Rightarrow> k)]))"

text \<open>
  Lines 65 to 72. \<^verbatim>\<open>open(filename, 'x')\<close> raises \<^verbatim>\<open>FileExistsError\<close> when the path exists,
  before anything is formatted; otherwise the file is there from then on, with what was
  printed until the formatter returned or raised.
\<close>

definition write_monster ::
  "(nat \<Rightarrow> bool) \<Rightarrow> json \<Rightarrow> ustr option \<Rightarrow> bool \<Rightarrow> ustr option \<Rightarrow> world \<Rightarrow> world \<times> exc option" where
  "write_monster P monster_in filename sd url w =
     (case filename of
        None \<Rightarrow>
          (let r = write_monster_to_file P monster_in False None
           in (w\<lparr>console := console w @ map to_console (fst r)\<rparr>, snd r))
      | Some fn \<Rightarrow>
          (case files w fn of
             Some old \<Rightarrow> (w\<lparr>console := console w @ [exists_message fn url]\<rparr>, None)
           | None \<Rightarrow>
               (let r = write_monster_to_file P monster_in sd url
                in (w\<lparr>files := (files w)(fn \<mapsto> file_lines (fst r)),
                      console := console w @ console_items (fst r)\<rparr>, snd r))))"

text \<open>\<^verbatim>\<open>os.path.join(a, b)\<close> of \<^verbatim>\<open>posixpath\<close>.\<close>

definition path_join :: "ustr \<Rightarrow> ustr \<Rightarrow> ustr" where
  "path_join a b =
     (if take 1 b = [47] then b
      else if a = [] then b
      else if last a = 47 then a @ b
      else a @ 47 # b)"

text \<open>
  Lines 571 to 577: the destination and the record handed to \<^verbatim>\<open>write_monster\<close>.
  \<^verbatim>\<open>key.split('/')[3]\<close> needs three slashes in the key.
\<close>

definition prepare :: "ustr \<Rightarrow> ustr \<Rightarrow> json \<Rightarrow> exc + ustr \<times> json" where
  "prepare outpath key monster_in =
     (if count_list key 47 < 3 then Inl IndexError
      else
        ebind (sub_s monster_in (u ''title2''))
          (\<lambda>title2. ebind (meth_replace 47 (u '' or '') title2)
          (\<lambda>name.
             if is_infix (u ''NPCDisplay'') key then
               (case monster_in of
                  JObj kvs \<Rightarrow>
                    ebind (as_str title2)
                      (\<lambda>t. Inr (path_join outpath (u ''NPC '' @ name @ u ''.md''),
                                JObj (dict_set kvs (u ''title2'') (JStr (u ''NPC '' @ t)))))
                | _ \<Rightarrow> Inl TypeError)
             else Inr (path_join outpath (name @ u ''.md''), monster_in))))"

text \<open>The handler of line 580 takes a \<^verbatim>\<open>KeyError\<close> and a \<^verbatim>\<open>TypeError\<close>, nothing else.\<close>

definition caught :: "exc \<Rightarrow> bool" where
  "caught e = (case e of KeyError k \<Rightarrow> True | TypeError \<Rightarrow> True | _ \<Rightarrow> False)"

definition try_body :: "(nat \<Rightarrow> bool) \<Rightarrow> ustr \<Rightarrow> world \<Rightarrow> ustr \<Rightarrow> json \<Rightarrow> world \<times> exc option" where
  "try_body P outpath w key monster_in =
     (case prepare outpath key monster_in of
        Inl e \<Rightarrow> (w, Some e)
      | Inr dest \<Rightarrow> write_monster P (snd dest) (Some (fst dest)) True (Some key) w)"

text \<open>
  Lines 566 to 581 for one record. The loop over the record's keys (line 568) is outside
  the \<^verbatim>\<open>try\<close>. An exception that leaves this function ends the run.
\<close>

definition process_record ::
  "(nat \<Rightarrow> bool) \<Rightarrow> ustr \<Rightarrow> world \<Rightarrow> ustr \<times> json \<Rightarrow> world \<times> exc option" where
  "process_record P outpath w item =
     (case py_iter (snd item) of
        Inl e \<Rightarrow> (w, Some e)
      | Inr mkeys \<Rightarrow>
          if list_all hashable mkeys then
            (let r = try_body P outpath w (fst item) (snd item)
             in case snd r of
                  None \<Rightarrow> r
                | Some e \<Rightarrow>
                    if caught e
                    then ((fst r)\<lparr>console := console (fst r) @ [DErr e (fst item)]\<rparr>, None)
                    else r)
          else (w, Some TypeError))"

fun process_batch ::
  "(nat \<Rightarrow> bool) \<Rightarrow> ustr \<Rightarrow> world \<Rightarrow> (ustr \<times> json) list \<Rightarrow> world \<times> exc option" where
  "process_batch P outpath w [] = (w, None)"
| "process_batch P outpath w (item # rest) =
     (case process_record P outpath w item of
        (w', Some e) \<Rightarrow> (w', Some e)
      | (w', None) \<Rightarrow> process_batch P outpath w' rest)"

section \<open>Notions used to state the properties\<close>

text \<open>
  What the \<^verbatim>\<open>HP_extra\<close> line lists: the keys of the hit point table other than \<^verbatim>\<open>HP\<close> and
  \<^verbatim>\<open>long\<close>, underscores turned into spaces, each followed by its value.
\<close>

definition hp_extras :: "(nat \<Rightarrow> bool) \<Rightarrow> (ustr \<times> json) list \<Rightarrow> ustr list" where
  "hp_extras P hp =
     map (\<lambda>k. replace_char 95 (u '' '') k @ u '' '' @ py_str P (the (map_of hp k)))
       (filter (\<lambda>k. k \<noteq> u ''HP'' \<and> k \<noteq> u ''long'') (map fst hp))"

text \<open>
  The suffix of a spell level and the note on its slots, as the level header is described:
  \<^verbatim>\<open>st\<close>, \<^verbatim>\<open>nd\<close>, \<^verbatim>\<open>rd\<close> for 1, 2, 3, nothing for 0, \<^verbatim>\<open>th\<close> otherwise; \<^verbatim>\<open>(at-will)\<close> for
  level 0 and the number of slots per day for the others.
\<close>

definition ordinal_suffix :: "int \<Rightarrow> ustr" where
  "ordinal_suffix n =
     (if n = 0 then [] else if n = 1 then u ''st'' else if n = 2 then u ''nd''
      else if n = 3 then u ''rd'' else u ''th'')"

definition slot_note :: "(nat \<Rightarrow> bool) \<Rightarrow> int \<Rightarrow> json \<Rightarrow> ustr" where
  "slot_note P n v = (if n = 0 then u '' (at-will)'' else u '' ('' @ py_str P v @ u ''/day)'')"

text \<open>
  The printable ASCII characters, and the escape as the specification words it: printable
  ASCII unaltered, every other character replaced by its backslash escape.
\<close>

definition printable_ascii :: "nat \<Rightarrow> bool" where
  "printable_ascii c = (32 \<le> c \<and> c < 127)"

definition claimed_escape_char :: "nat \<Rightarrow> ustr" where
  "claimed_escape_char c = (if printable_ascii c then [c] else unicode_escape_char c)"


text \<open>
  Hexadecimal numerals in lower case: the digit characters, the value of a digit, and
  the number a string of digits denotes. The letter and the number of digits of the
  escape of a code point: \<^verbatim>\<open>\xhh\<close> below 256, \<^verbatim>\<open>\uhhhh\<close> below 65536, \<^verbatim>\<open>\Uhhhhhhhh\<close> from
  there on.
\<close>

definition is_hex_digit :: "nat \<Rightarrow> bool" where
  "is_hex_digit x = ((48 \<le> x \<and> x \<le> 57) \<or> (97 \<le> x \<and> x \<le> 102))"

definition hex_digit_value :: "nat \<Rightarrow> nat" where
  "hex_digit_value x = (if x \<le> 57 then x - 48 else x - 87)"

definition hex_value :: "ustr \<Rightarrow> nat" where
  "hex_value h = foldl (\<lambda>a x. 16 * a + hex_digit_value x) 0 h"

definition escape_letter :: "nat \<Rightarrow> nat" where
  "escape_letter c = (if c < 256 then 120 else if c < 65536 then 117 else 85)"

definition escape_width :: "nat \<Rightarrow> nat" where
  "escape_width c = (if c < 256 then 2 else if c < 65536 then 4 else 8)"

text \<open>
  A record without one of its keys, and the keys the specification calls mandatory
  (section 3): title, challenge rating, experience value, alignment, size, type,
  initiative, armor class, hit points, saving throws, ability scores, base attack bonus,
  combat maneuver bonus and defense, movement speeds.
\<close>

definition del_key :: "ustr \<Rightarrow> json \<Rightarrow> json" where
  "del_key f v = (case v of JObj kvs \<Rightarrow> JObj (filter (\<lambda>kv. fst kv \<noteq> f) kvs) | _ \<Rightarrow> v)"

definition mandatory_fields :: "ustr list" where
  "mandatory_fields =
     [u ''title2'', u ''CR'', u ''XP'', u ''alignment'', u ''size'', u ''type'', u ''initiative'',
      u ''AC'', u ''HP'', u ''saves'', u ''ability_scores'', u ''BAB'', u ''CMB'', u ''CMD'',
      u ''speeds'']"

text \<open>
  A record with every mandatory key, a skills table and a sources list, and its key in
  the input.
\<close>

definition sample_monster :: json where
  "sample_monster =
     JObj [(u ''title2'', JStr (u ''Goblin'')),
           (u ''CR'', JInt 1),
           (u ''XP'', JInt 400),
           (u ''alignment'', JStr (u ''NE'')),
           (u ''size'', JStr (u ''Small'')),
           (u ''type'', JStr (u ''humanoid'')),
           (u ''initiative'', JObj [(u ''bonus'', JInt 6)]),
           (u ''AC'', JObj [(u ''AC'', JInt 16), (u ''touch'', JInt 13), (u ''flat_footed'', JInt 14)]),
           (u ''HP'', JObj [(u ''HP'', JInt 6), (u ''long'', JStr (u ''1d10+1''))]),
           (u ''saves'', JObj [(u ''fort'', JInt 3), (u ''ref'', JInt 2), (u ''will'', JInt (- 1))]),
           (u ''speeds'', JObj [(u ''base'', JInt 30)]),
           (u ''ability_scores'',
              JObj [(u ''STR'', JInt 11), (u ''DEX'', JInt 15), (u ''CON'', JInt 12),
                    (u ''INT'', JInt 10), (u ''WIS'', JInt 9), (u ''CHA'', JInt 6)]),
           (u ''BAB'', JInt 1),
           (u ''CMB'', JInt 0),
           (u ''CMD'', JInt 12),
           (u ''skills'', JObj [(u ''Stealth'', JObj [(u ''_'', JInt 10)])]),
           (u ''sources'', JList [JObj [(u ''name'', JStr (u ''Pathfinder RPG Bestiary'')), (u ''page'', JInt 156)]])]"

definition sample_key :: ustr where
  "sample_key = u ''https://aonprd.com/MonsterDisplay.aspx?ItemName=Goblin''"



definition first_seen :: "'a list \<Rightarrow> 'a list" where
  "first_seen xs = rev (remdups (rev xs))"







section \<open>Facts about the helpers\<close>

lemma ebind_Inr [simp]: "ebind (Inr v) f = f v"
  by (simp add: ebind_def)

lemma ebind_Inl [simp]: "ebind (Inl e) f = Inl e"
  by (simp add: ebind_def)

lemma with_val_Inr [simp]: "with_val (Inr v) f = f v"
  by (simp add: with_val_def)

lemma with_val_Inl [simp]: "with_val (Inl e) f = throw e"
  by (simp add: with_val_def)

lemma seqs_Nil [simp]: "seqs [] = skip"
  by (simp add: seqs_def)

lemma seqs_Cons [simp]: "seqs (r # rs) = seq r (seqs rs)"
  by (simp add: seqs_def)

lemma seq_emit [simp]: "seq (emit l) r = (F l # fst r, snd r)"
  by (simp add: seq_def emit_def)

lemma seq_skip [simp]: "seq skip r = r"
  by (simp add: seq_def skip_def)

lemma seq_throw [simp]: "seq (throw e) r = throw e"
  by (simp add: seq_def throw_def)

lemma emap_as_str_JStr: "emap as_str (map JStr xs) = Inr xs"
  by (induction xs) (simp_all add: as_str_def)

lemma join_list_JStr: "join_list sep (map JStr xs) = Inr (py_join sep xs)"
  by (simp add: join_list_def emap_as_str_JStr)

lemma sub_s_key:
  "k \<in> fst ` set kvs \<Longrightarrow> \<exists>v. sub_s (JObj kvs) k = Inr v"
  by (cases "map_of kvs k") (auto simp: sub_s_def map_of_eq_None_iff)

lemma sub_s_Inr_JObj:
  "sub_s c k = Inr v \<Longrightarrow> \<exists>kvs. c = JObj kvs \<and> map_of kvs k = Some v"
  by (auto simp: sub_s_def split: json.splits option.splits)

lemma sub_s_in: "sub_s c k = Inr v \<Longrightarrow> py_in_s k c = Inr True"
  by (auto simp: sub_s_def py_in_s_def split: json.splits option.splits
      dest: map_of_SomeD intro: rev_image_eqI)

lemma digits_small: "m < 10 \<Longrightarrow> digits m = [48 + m]"
  by (subst digits.simps) simp

lemma digits_nonempty: "digits m \<noteq> []"
  by (subst digits.simps) simp

lemma digits_large: "10 \<le> m \<Longrightarrow> 2 \<le> length (digits m)"
proof -
  assume "10 \<le> m"
  then have "digits m = digits (m div 10) @ [48 + m mod 10]"
    by (subst digits.simps) simp
  moreover have "1 \<le> length (digits (m div 10))"
    using digits_nonempty [of "m div 10"] by (cases "digits (m div 10)") simp_all
  ultimately show ?thesis by simp
qed

lemma digits_eq_single: "d < 10 \<Longrightarrow> digits m = [48 + d] \<longleftrightarrow> m = d"
proof (cases "m < 10")
  case True
  then show ?thesis by (simp add: digits_small)
next
  case False
  assume "d < 10"
  from False have "2 \<le> length (digits m)" by (simp add: digits_large)
  then have "digits m \<noteq> [48 + d]" by auto
  with False \<open>d < 10\<close> show ?thesis by auto
qed

lemma str_int_eq_single:
  "0 \<le> n \<Longrightarrow> d < 10 \<Longrightarrow> str_int n = [48 + d] \<longleftrightarrow> n = int d"
  by (auto simp: str_int_def digits_eq_single)

lemma str_int_zero: "0 \<le> n \<Longrightarrow> str_int n = u ''0'' \<longleftrightarrow> n = 0"
  using str_int_eq_single [of n 0] by (simp add: u_def)

lemma ebind_eq_Inr: "ebind m f = Inr y \<longleftrightarrow> (\<exists>x. m = Inr x \<and> f x = Inr y)"
  by (cases m) simp_all

section \<open>The senses line (C4)\<close>

lemma sense_entry_key:
  assumes "k \<in> fst ` set senses"
  shows "sense_entry P (JObj senses) (JStr k) = Inr (JStr k)"
proof -
  obtain v where "sub_s (JObj senses) k = Inr v"
    using sub_s_key [OF assms] by blast
  then show ?thesis
    by (simp add: sense_entry_def sub_j_def class_isinstance_int_def)
qed

lemma emap_sense_entry:
  "set ks \<subseteq> fst ` set senses \<Longrightarrow>
   emap (sense_entry P (JObj senses)) (map JStr ks) = Inr (map JStr ks)"
  by (induction ks) (simp_all add: sense_entry_key)

text \<open>
  C4. When the record has a senses mapping, the senses line is the comma-joined list of
  the bare sense names, whatever the values stored under them are (numbers included):
  the branch that would append the value is never taken.
\<close>

theorem senses_line_bare_names:
  assumes "sub_s monster_in (u ''senses'') = Inr (JObj senses)"
  shows "senses_line P monster_in =
         emit (sp [u ''senses:'', wq (py_join (u '', '') (map fst senses))])"
proof -
  obtain kvs where m: "monster_in = JObj kvs"
    and k: "map_of kvs (u ''senses'') = Some (JObj senses)"
    using sub_s_Inr_JObj [OF assms] by blast
  define ks where "ks = map fst senses"
  have present: "py_in_s (u ''senses'') monster_in = Inr True"
    using k by (auto simp: m py_in_s_def dest: map_of_SomeD intro: rev_image_eqI)
  have keys: "py_iter (JObj senses) = Inr (map JStr ks)"
    by (simp add: py_iter_def ks_def)
  have entries: "emap (sense_entry P (JObj senses)) (map JStr ks) = Inr (map JStr ks)"
    by (rule emap_sense_entry) (simp add: ks_def)
  have "senses_line P monster_in = emit (sp [u ''senses:'', wq (py_join (u '', '') ks)])"
    by (simp add: senses_line_def when_in_def present assms keys entries join_list_JStr)
  then show ?thesis
    by (simp add: ks_def)
qed

theorem senses_line_bare_names_witness:
  "senses_line (\<lambda>c. True)
     (JObj [(u ''senses'', JObj [(u ''darkvision'', JInt 60), (u ''scent'', JNull)])]) =
   emit (u ''senses: '' @ [34] @ u ''darkvision, scent'' @ [34])"
  using senses_line_bare_names
    [of "JObj [(u ''senses'', JObj [(u ''darkvision'', JInt 60), (u ''scent'', JNull)])]"
        "[(u ''darkvision'', JInt 60), (u ''scent'', JNull)]" "\<lambda>c. True"]
  by (simp add: sub_s_def sp_def wq_def u_def)

section \<open>The hit point lines (C10)\<close>

lemma hp_entry_key:
  assumes "k \<in> fst ` set hp"
  shows "hp_entry P (JObj hp) acc (JStr k) =
         Inr (acc @ (if k = u ''HP'' \<or> k = u ''long'' then []
                     else [replace_char 95 (u '' '') k @ u '' '' @ py_str P (the (map_of hp k))]))"
proof -
  obtain v where "map_of hp k = Some v"
    using assms by (cases "map_of hp k") (auto simp: map_of_eq_None_iff)
  then show ?thesis
    by (simp add: hp_entry_def meth_replace_def sub_j_def sub_s_def)
qed

lemma efold_hp_entry:
  "set ks \<subseteq> fst ` set hp \<Longrightarrow>
   efold (hp_entry P (JObj hp)) (map JStr ks) acc =
   Inr (acc @ map (\<lambda>k. replace_char 95 (u '' '') k @ u '' '' @ py_str P (the (map_of hp k)))
                (filter (\<lambda>k. k \<noteq> u ''HP'' \<and> k \<noteq> u ''long'') ks))"
  by (induction ks arbitrary: acc) (simp_all add: hp_entry_key)

text \<open>
  C10. When the record has a hit point table with the key \<^verbatim>\<open>HP\<close>, the two lines \<^verbatim>\<open>HP:\<close> and
  \<^verbatim>\<open>HP_extra:\<close> are printed, the second with the other sub-fields of the table; when the
  table has no key but \<^verbatim>\<open>HP\<close> and \<^verbatim>\<open>long\<close>, the line is \<^verbatim>\<open>HP_extra: ""\<close>, not left out.
\<close>

theorem hp_extra_always_emitted:
  assumes "sub_s monster_in (u ''HP'') = Inr (JObj hp)"
    and "sub_s (JObj hp) (u ''HP'') = Inr v"
  shows "take 2 (fst (hp_lines P monster_in)) =
           [F (sp [u ''HP:'', py_str P v]),
            F (sp [u ''HP_extra:'', wq (py_join (u ''; '') (hp_extras P hp))])]
         \<and> (set (map fst hp) \<subseteq> {u ''HP'', u ''long''} \<longrightarrow>
              sp [u ''HP_extra:'', wq (py_join (u ''; '') (hp_extras P hp))]
              = u ''HP_extra: '' @ [34, 34])"
proof -
  define ks where "ks = map fst hp"
  have keys: "py_iter (JObj hp) = Inr (map JStr ks)"
    by (simp add: py_iter_def ks_def)
  have loop: "efold (hp_entry P (JObj hp)) (map JStr ks) [] = Inr (hp_extras P hp)"
    using efold_hp_entry [of ks hp P "[]"] by (simp add: ks_def hp_extras_def)
  have first: "sub2 monster_in (u ''HP'') (u ''HP'') = Inr v"
    by (simp add: sub2_def assms)
  have lines: "take 2 (fst (hp_lines P monster_in)) =
           [F (sp [u ''HP:'', py_str P v]),
            F (sp [u ''HP_extra:'', wq (py_join (u ''; '') (hp_extras P hp))])]"
    by (simp add: hp_lines_def assms(1) keys loop first)
  have empty: "hp_extras P hp = []" if "set (map fst hp) \<subseteq> {u ''HP'', u ''long''}"
    using that by (auto simp: hp_extras_def filter_empty_conv)
  have "sp [u ''HP_extra:'', wq []] = u ''HP_extra: '' @ [34, 34]"
    by (simp add: sp_def wq_def u_def)
  with lines empty show ?thesis
    by simp
qed

theorem hp_extra_always_emitted_witness:
  "take 2 (fst (hp_lines (\<lambda>c. True)
      (JObj [(u ''HP'', JObj [(u ''HP'', JInt 12), (u ''long'', JStr (u ''2d8+3''))])]))) =
     [F (u ''HP: 12''), F (u ''HP_extra: '' @ [34, 34])]"
  using hp_extra_always_emitted
    [of "JObj [(u ''HP'', JObj [(u ''HP'', JInt 12), (u ''long'', JStr (u ''2d8+3''))])]"
        "[(u ''HP'', JInt 12), (u ''long'', JStr (u ''2d8+3''))]" "JInt 12" "\<lambda>c. True"]
  by (simp add: sub_s_def sp_def u_def py_str_def str_int_def digits.simps)

section \<open>The spell level header (C7)\<close>

lemma level_ordinal_cases:
  "level_ordinal k =
     (if k = u ''1'' then k @ u ''st'' else if k = u ''2'' then k @ u ''nd''
      else if k = u ''3'' then k @ u ''rd'' else if k = u ''0'' then k else k @ u ''th'')"
  by (simp add: level_ordinal_def nth_suffix_def)

lemma level_ordinal_int:
  assumes "0 \<le> n"
  shows "level_ordinal (str_int n) = str_int n @ ordinal_suffix n"
proof -
  have k: "str_int n = u ''1'' \<longleftrightarrow> n = 1"
    "str_int n = u ''2'' \<longleftrightarrow> n = 2" "str_int n = u ''3'' \<longleftrightarrow> n = 3"
    using str_int_eq_single [OF assms, of 1]
      str_int_eq_single [OF assms, of 2] str_int_eq_single [OF assms, of 3]
    by (simp_all add: u_def)
  show ?thesis
    unfolding level_ordinal_cases k str_int_zero [OF assms] ordinal_suffix_def
    by simp
qed

text \<open>
  C7. For a level \<open>n\<close> from 0 on, the header is the number with \<^verbatim>\<open>st\<close>, \<^verbatim>\<open>nd\<close>, \<^verbatim>\<open>rd\<close> for 1, 2
  and 3, \<^verbatim>\<open>th\<close> from 4 on and nothing for 0. When the source has a slots table with the
  level's key, the header of level 0 ends in \<^verbatim>\<open>(at-will)\<close> and the header of any other level
  in the number of slots and \<^verbatim>\<open>/day\<close>. When the slots table does not have the level's key,
  and when the source has no slots table, the header is the number and its suffix, with
  no such note.
\<close>

theorem spell_header_levels:
  assumes "0 \<le> n"
  shows "level_ordinal (str_int n) = str_int n @ ordinal_suffix n
       \<and> (\<forall>slots v. sub_s source (u ''slots'') = Inr (JObj slots) \<longrightarrow>
                    sub_s (JObj slots) (str_int n) = Inr v \<longrightarrow>
            spell_header P source (str_int n) =
            Inr (str_int n @ ordinal_suffix n @ slot_note P n v))
       \<and> (\<forall>slots. sub_s source (u ''slots'') = Inr (JObj slots) \<longrightarrow>
                  map_of slots (str_int n) = None \<longrightarrow>
            spell_header P source (str_int n) = Inr (str_int n @ ordinal_suffix n))
       \<and> (py_in_s (u ''slots'') source = Inr False \<longrightarrow>
            spell_header P source (str_int n) = Inr (str_int n @ ordinal_suffix n))
       \<and> (has_slot source (str_int n) = Inr False \<longrightarrow>
            spell_header P source (str_int n) = Inr (str_int n @ ordinal_suffix n))"
proof -
  have with_slots: "spell_header P source (str_int n) =
            Inr (str_int n @ ordinal_suffix n @ slot_note P n v)"
    if s: "sub_s source (u ''slots'') = Inr (JObj slots)"
      and v: "sub_s (JObj slots) (str_int n) = Inr v" for slots v
    unfolding spell_header_def has_slot_def sub2_def level_ordinal_int [OF assms]
      str_int_zero [OF assms]
    by (simp add: sub_s_in [OF s] sub_s_in [OF v] s v slot_note_def)
  have no_note: "spell_header P source (str_int n) = Inr (str_int n @ ordinal_suffix n)"
    if "has_slot source (str_int n) = Inr False"
    by (simp add: spell_header_def that level_ordinal_int [OF assms])
  have key_absent: "has_slot source (str_int n) = Inr False"
    if s: "sub_s source (u ''slots'') = Inr (JObj slots)"
      and k: "map_of slots (str_int n) = None" for slots
  proof -
    from k have "str_int n \<notin> set (map fst slots)"
      by (simp add: map_of_eq_None_iff)
    then have "py_in_s (str_int n) (JObj slots) = Inr False"
      by (simp add: py_in_s_def)
    then show ?thesis
      by (simp add: has_slot_def sub_s_in [OF s] s)
  qed
  have table_absent: "has_slot source (str_int n) = Inr False"
    if "py_in_s (u ''slots'') source = Inr False"
    by (simp add: has_slot_def that)
  from with_slots no_note key_absent table_absent level_ordinal_int [OF assms]
  show ?thesis
    by blast
qed

theorem spell_header_levels_witness:
  "spell_header (\<lambda>c. True) (JObj [(u ''slots'', JObj [(u ''0'', JInt 4), (u ''1'', JInt 3)])]) (u ''0'')
     = Inr (u ''0 (at-will)'')
   \<and> spell_header (\<lambda>c. True) (JObj [(u ''slots'', JObj [(u ''0'', JInt 4), (u ''1'', JInt 3)])]) (u ''1'')
     = Inr (u ''1st (3/day)'')
   \<and> spell_header (\<lambda>c. True) (JObj [(u ''slots'', JObj [(u ''2'', JInt 3)])]) (u ''1'')
     = Inr (u ''1st'')
   \<and> spell_header (\<lambda>c. True) (JObj [(u ''slots'', JObj [(u ''2'', JInt 3)])]) (u ''0'')
     = Inr (u ''0'')
   \<and> spell_header (\<lambda>c. True) (JObj [(u ''CL'', JInt 5)]) (u ''2'') = Inr (u ''2nd'')
   \<and> level_ordinal (u ''4'') = u ''4th''"
proof -
  have k: "str_int 0 = u ''0''" "str_int 1 = u ''1''" "str_int 2 = u ''2''" "str_int 4 = u ''4''"
    by (simp_all add: u_def str_int_def digits.simps)
  have a: "spell_header (\<lambda>c. True)
             (JObj [(u ''slots'', JObj [(u ''0'', JInt 4), (u ''1'', JInt 3)])]) (u ''0'')
           = Inr (u ''0 (at-will)'')"
    using spell_header_levels
      [of 0 "JObj [(u ''slots'', JObj [(u ''0'', JInt 4), (u ''1'', JInt 3)])]" "\<lambda>c. True"]
    by (simp add: k sub_s_def ordinal_suffix_def slot_note_def) (simp add: u_def)
  have b: "spell_header (\<lambda>c. True)
             (JObj [(u ''slots'', JObj [(u ''0'', JInt 4), (u ''1'', JInt 3)])]) (u ''1'')
           = Inr (u ''1st (3/day)'')"
    using spell_header_levels
      [of 1 "JObj [(u ''slots'', JObj [(u ''0'', JInt 4), (u ''1'', JInt 3)])]" "\<lambda>c. True"]
    by (simp add: k sub_s_def ordinal_suffix_def slot_note_def py_str_def)
       (simp add: u_def str_int_def digits.simps)
  have c: "spell_header (\<lambda>c. True) (JObj [(u ''slots'', JObj [(u ''2'', JInt 3)])]) (u ''1'')
           = Inr (u ''1st'')"
    using spell_header_levels [of 1 "JObj [(u ''slots'', JObj [(u ''2'', JInt 3)])]" "\<lambda>c. True"]
    by (simp add: k sub_s_def ordinal_suffix_def) (simp add: u_def)
  have d: "spell_header (\<lambda>c. True) (JObj [(u ''slots'', JObj [(u ''2'', JInt 3)])]) (u ''0'')
           = Inr (u ''0'')"
    using spell_header_levels [of 0 "JObj [(u ''slots'', JObj [(u ''2'', JInt 3)])]" "\<lambda>c. True"]
    by (simp add: k sub_s_def ordinal_suffix_def) (simp add: u_def)
  have e: "spell_header (\<lambda>c. True) (JObj [(u ''CL'', JInt 5)]) (u ''2'') = Inr (u ''2nd'')"
    using spell_header_levels [of 2 "JObj [(u ''CL'', JInt 5)]" "\<lambda>c. True"]
    by (simp add: k py_in_s_def ordinal_suffix_def) (simp add: u_def)
  have f: "level_ordinal (u ''4'') = u ''4th''"
    using spell_header_levels [of 4 JNull "\<lambda>c. True"]
    by (simp add: k ordinal_suffix_def) (simp add: u_def)
  from a b c d e f show ?thesis
    by blast
qed

section \<open>The source line (C1)\<close>

text \<open>
  C1. The test of line 100 is \<^verbatim>\<open>source[8:] == 'Bestiary'\<close>: it compares what follows the
  first eight characters, not the first eight characters. The source names \<^verbatim>\<open>Bestiary\<close> and
  \<^verbatim>\<open>Bestiary 2\<close> are printed without the prefix \<^verbatim>\<open>Pathfinder RPG\<close>; a name of eight
  characters followed by \<^verbatim>\<open>Bestiary\<close> gets it.
\<close>

theorem source_line_Bestiary:
  "source_line True
     (JObj [(u ''sources'', JList [JObj [(u ''name'', JStr (u ''Bestiary'')), (u ''page'', JInt 5)]])])
   = emit (u ''source:  '' @ [34] @ u ''Bestiary'' @ [34])
   \<and> source_line True
     (JObj [(u ''sources'', JList [JObj [(u ''name'', JStr (u ''Bestiary 2'')), (u ''page'', JInt 5)]])])
   = emit (u ''source:  '' @ [34] @ u ''Bestiary 2'' @ [34])
   \<and> source_line True
     (JObj [(u ''sources'', JList [JObj [(u ''name'', JStr (u ''MonsversBestiary'')), (u ''page'', JInt 5)]])])
   = emit (u ''source:  '' @ [34] @ u ''Pathfinder RPG MonsversBestiary'' @ [34])"
  by code_simp

section \<open>The speed line (C3)\<close>

text \<open>
  C3. The loop of line 236 skips the keys \<^verbatim>\<open>base\<close>, \<^verbatim>\<open>fly\<close> and \<^verbatim>\<open>fly_maneuverability\<close>, not
  \<^verbatim>\<open>fly_other\<close>: with a fly speed and a \<^verbatim>\<open>fly_other\<close> text and no maneuverability, the text
  is printed with the fly speed and once more as a speed of its own.
\<close>

theorem speed_line_fly_other_twice:
  "speed_line P
     (JObj [(u ''speeds'', JObj [(u ''fly'', JInt 60), (u ''fly_other'', JStr (u ''magic''))])])
   = emit (u ''speed: '' @ [34] @ u ''fly 60 ft. (magic), fly_other magic ft.'' @ [34])"
  by code_simp

section \<open>Text escaping (C8)\<close>

lemma hexdigit_hex:
  "d < 16 \<Longrightarrow> is_hex_digit (hexdigit d) \<and> hex_digit_value (hexdigit d) = d"
  by (simp add: hexdigit_def is_hex_digit_def hex_digit_value_def)

lemma hexn_digits: "list_all is_hex_digit (hexn k c)"
  by (induction k arbitrary: c) (simp_all add: hexdigit_hex)

lemma hexn_length: "length (hexn k c) = k"
  by (induction k arbitrary: c) simp_all

lemma hex_value_snoc: "hex_value (h @ [x]) = 16 * hex_value h + hex_digit_value x"
  by (simp add: hex_value_def)

lemma hex_value_hexn: "hex_value (hexn k c) = c mod 16 ^ k"
proof (induction k arbitrary: c)
  case 0
  show ?case by (simp add: hex_value_def)
next
  case (Suc k)
  have "hex_value (hexn (Suc k) c) = 16 * (c div 16 mod 16 ^ k) + c mod 16"
    by (simp add: hex_value_snoc Suc.IH hexdigit_hex)
  also have "\<dots> = c mod (16 * 16 ^ k)"
    by (simp add: mod_mult2_eq)
  finally show ?case by simp
qed

lemma escape_width_value:
  assumes "c \<le> 1114111"
  shows "c mod 16 ^ escape_width c = c"
proof -
  have "(16::nat) ^ 2 = 256" "(16::nat) ^ 4 = 65536" "(16::nat) ^ 8 = 4294967296"
    by simp_all
  with assms show ?thesis
    by (simp add: escape_width_def)
qed

lemma unicode_escape_char_other:
  assumes "\<not> printable_ascii c" and "c \<noteq> 9" and "c \<noteq> 10" and "c \<noteq> 13"
  shows "unicode_escape_char c = [92, escape_letter c] @ hexn (escape_width c) c"
  using assms
  by (auto simp: unicode_escape_char_def printable_ascii_def escape_letter_def escape_width_def)

text \<open>
  C8, as the code has it. The \<^verbatim>\<open>desc\<close> line is the string form of the value, escaped
  character by character and put between double quotes: a printable ASCII character
  other than the backslash is left as it is, a backslash is doubled, tab, newline and
  carriage return become \<^verbatim>\<open>\t\<close>, \<^verbatim>\<open>\n\<close> and \<^verbatim>\<open>\r\<close>, and every other character becomes
  \<^verbatim>\<open>\x\<close> and two, \<^verbatim>\<open>\u\<close> and four or \<^verbatim>\<open>\U\<close> and eight hexadecimal digits in lower case
  that denote its code point.
\<close>

theorem to_desc_escapes:
  "to_desc P txt =
     emit (u ''    desc: '' @ [34] @ concat (map unicode_escape_char (py_str P txt)) @ [34])
   \<and> (\<forall>c. printable_ascii c \<and> c \<noteq> 92 \<longrightarrow> unicode_escape_char c = [c])
   \<and> unicode_escape_char 92 = [92, 92]
   \<and> unicode_escape_char 9 = [92, 116]
   \<and> unicode_escape_char 10 = [92, 110]
   \<and> unicode_escape_char 13 = [92, 114]
   \<and> (\<forall>c. \<not> printable_ascii c \<and> c \<noteq> 9 \<and> c \<noteq> 10 \<and> c \<noteq> 13 \<longrightarrow>
         (\<exists>h. unicode_escape_char c = [92, escape_letter c] @ h
              \<and> length h = escape_width c
              \<and> list_all is_hex_digit h
              \<and> hex_value h = c mod 16 ^ escape_width c
              \<and> (c \<le> 1114111 \<longrightarrow> hex_value h = c)))"
proof -
  have line: "to_desc P txt =
     emit (u ''    desc: '' @ [34] @ concat (map unicode_escape_char (py_str P txt)) @ [34])"
    by (simp add: to_desc_def sp_def unicode_escape_def u_def)
  have plain: "\<forall>c. printable_ascii c \<and> c \<noteq> 92 \<longrightarrow> unicode_escape_char c = [c]"
    by (simp add: printable_ascii_def unicode_escape_char_def)
  have named: "unicode_escape_char 92 = [92, 92]" "unicode_escape_char 9 = [92, 116]"
    "unicode_escape_char 10 = [92, 110]" "unicode_escape_char 13 = [92, 114]"
    by (simp_all add: unicode_escape_char_def)
  have hex: "\<exists>h. unicode_escape_char c = [92, escape_letter c] @ h
              \<and> length h = escape_width c
              \<and> list_all is_hex_digit h
              \<and> hex_value h = c mod 16 ^ escape_width c
              \<and> (c \<le> 1114111 \<longrightarrow> hex_value h = c)"
    if "\<not> printable_ascii c \<and> c \<noteq> 9 \<and> c \<noteq> 10 \<and> c \<noteq> 13" for c
  proof (intro exI conjI)
    show "unicode_escape_char c = [92, escape_letter c] @ hexn (escape_width c) c"
      using that by (simp add: unicode_escape_char_other)
    show "length (hexn (escape_width c) c) = escape_width c"
      by (rule hexn_length)
    show "list_all is_hex_digit (hexn (escape_width c) c)"
      by (rule hexn_digits)
    show "hex_value (hexn (escape_width c) c) = c mod 16 ^ escape_width c"
      by (rule hex_value_hexn)
    show "c \<le> 1114111 \<longrightarrow> hex_value (hexn (escape_width c) c) = c"
      by (simp add: hex_value_hexn escape_width_value)
  qed
  from line plain named hex show ?thesis
    by blast
qed

lemma hexn_numeral:
  "hexn (numeral k) n = hexn (pred_numeral k) (n div 16) @ [hexdigit (n mod 16)]"
  unfolding numeral_eq_Suc [of k] by simp

theorem to_desc_escapes_witness:
  "to_desc (\<lambda>c. True) (JStr [65, 92, 233, 8212]) =
     emit (u ''    desc: '' @ [34] @ [65] @ [92, 92] @ [92, 120, 101, 57]
             @ [92, 117, 50, 48, 49, 52] @ [34])
   \<and> unicode_escape_char 65 = [65]
   \<and> unicode_escape_char 10 = [92, 110]
   \<and> (\<exists>h. unicode_escape_char 233 = [92, 120] @ h \<and> length h = 2 \<and> hex_value h = 233)"
proof -
  note t = to_desc_escapes [of "\<lambda>c. True" "JStr [65, 92, 233, 8212]"]
  note t1 = t [THEN conjunct1]
  note t2 = t [THEN conjunct2, THEN conjunct1]
  note t3 = t [THEN conjunct2, THEN conjunct2, THEN conjunct1]
  note t5 = t [THEN conjunct2, THEN conjunct2, THEN conjunct2, THEN conjunct2, THEN conjunct1]
  note t7 = t [THEN conjunct2, THEN conjunct2, THEN conjunct2, THEN conjunct2, THEN conjunct2,
      THEN conjunct2]
  have a: "printable_ascii 65 \<and> 65 \<noteq> (92::nat)"
    by (simp add: printable_ascii_def)
  have b: "\<not> printable_ascii 233 \<and> 233 \<noteq> (9::nat) \<and> 233 \<noteq> (10::nat) \<and> 233 \<noteq> (13::nat)"
    by (simp add: printable_ascii_def)
  have w: "escape_letter 233 = 120" "escape_width 233 = 2"
    by (simp_all add: escape_letter_def escape_width_def)
  have le: "(233::nat) \<le> 1114111"
    by simp
  have e1: "unicode_escape_char 233 = [92, 120, 101, 57]"
    by (simp add: unicode_escape_char_def hexn_numeral hexdigit_def)
  have e2: "unicode_escape_char 8212 = [92, 117, 50, 48, 49, 52]"
    by (simp add: unicode_escape_char_def hexn_numeral hexdigit_def)
  have e3: "unicode_escape_char 65 = [65]"
    by (rule t2 [THEN spec, THEN mp, OF a])
  note e4 = t3
  note e5 = t5
  from t7 [THEN spec, THEN mp, OF b]
  obtain h where h1: "unicode_escape_char 233 = [92, escape_letter 233] @ h"
    and h2: "length h = escape_width 233"
    and h3: "(233::nat) \<le> 1114111 \<longrightarrow> hex_value h = 233"
    by (elim exE conjE)
  from h3 le have h4: "hex_value h = 233"
    by (rule mp)
  have e6: "\<exists>h. unicode_escape_char 233 = [92, 120] @ h \<and> length h = 2 \<and> hex_value h = 233"
    using h1 h2 h4 unfolding w by (intro exI conjI)
  have s: "py_str (\<lambda>c. True) (JStr [65, 92, 233, 8212]) = [65, 92, 233, 8212]"
    by (simp add: py_str_def)
  have "to_desc (\<lambda>c. True) (JStr [65, 92, 233, 8212]) =
     emit (u ''    desc: '' @ [34] @ concat (map unicode_escape_char [65, 92, 233, 8212]) @ [34])"
    using t1 unfolding s .
  then have first: "to_desc (\<lambda>c. True) (JStr [65, 92, 233, 8212]) =
     emit (u ''    desc: '' @ [34] @ [65] @ [92, 92] @ [92, 120, 101, 57]
             @ [92, 117, 50, 48, 49, 52] @ [34])"
    by (simp only: list.map concat.simps e1 e2 e3 e4 append_Nil2 append_assoc)
  from first e3 e5 e6 show ?thesis
    by (intro conjI)
qed

text \<open>
  C8 as stated fails: the backslash is printable ASCII, and it is altered.
\<close>

theorem to_desc_backslash_counterexample:
  "printable_ascii 92
   \<and> to_desc (\<lambda>c. True) (JStr [92]) = emit (u ''    desc: '' @ [34, 92, 92, 34])
   \<and> to_desc (\<lambda>c. True) (JStr [92]) \<noteq>
       emit (u ''    desc: '' @ [34] @ concat (map claimed_escape_char (py_str (\<lambda>c. True) (JStr [92]))) @ [34])"
  by (simp add: printable_ascii_def to_desc_def sp_def unicode_escape_def unicode_escape_char_def
      claimed_escape_char_def py_str_def emit_def u_def)

section \<open>A destination that exists (C5)\<close>

lemma prepare_JObj:
  assumes "prepare outpath key monster_in = Inr d"
  shows "\<exists>kvs. monster_in = JObj kvs"
proof -
  from assms obtain t where "sub_s monster_in (u ''title2'') = Inr t"
    by (auto simp: prepare_def ebind_eq_Inr split: if_splits)
  then show ?thesis
    by (auto simp: sub_s_def split: json.splits)
qed

lemma keys_hashable: "list_all hashable (map (\<lambda>kv. JStr (fst kv)) kvs)"
  by (induction kvs) (simp_all add: hashable_def)

lemma exists_message_text:
  "exists_message fn (Some key) =
   Out (D (u ''ERROR: file '' @ fn @ u '' already exists while processing key '' @ key))"
  by (simp add: exists_message_def sp_def u_def)

text \<open>
  C5. When the destination of a record is a path that exists, \<^verbatim>\<open>write_monster\<close> writes
  nothing: the files are as before, the console gets the line that names the file and
  the record's key, no exception leaves, and the batch goes on with the next record.
\<close>

theorem existing_file_refused:
  assumes "prepare outpath key monster_in = Inr (fn, m)"
    and "files w fn = Some old"
  shows "process_batch P outpath w ((key, monster_in) # rest) =
           process_batch P outpath
             (w\<lparr>console := console w @
                [Out (D (u ''ERROR: file '' @ fn @ u '' already exists while processing key '' @ key))]\<rparr>)
             rest
       \<and> write_monster P m (Some fn) True (Some key) w =
           (w\<lparr>console := console w @
                [Out (D (u ''ERROR: file '' @ fn @ u '' already exists while processing key '' @ key))]\<rparr>,
            None)
       \<and> files (fst (write_monster P m (Some fn) True (Some key) w)) = files w"
proof -
  obtain kvs where kvs: "monster_in = JObj kvs"
    using prepare_JObj [OF assms(1)] by blast
  have wm: "write_monster P m (Some fn) True (Some key) w =
           (w\<lparr>console := console w @ [exists_message fn (Some key)]\<rparr>, None)"
    by (simp add: write_monster_def assms(2))
  have "process_record P outpath w (key, monster_in) =
           (w\<lparr>console := console w @ [exists_message fn (Some key)]\<rparr>, None)"
    by (simp add: process_record_def kvs py_iter_def keys_hashable try_body_def
        assms(1) [unfolded kvs] wm)
  with wm show ?thesis
    by (simp add: exists_message_text)
qed

theorem existing_file_refused_witness:
  "process_batch (\<lambda>c. True) (u ''bestiary/'')
      \<lparr>files = [u ''bestiary/Goblin.md'' \<mapsto> [u ''old content'']], console = []\<rparr>
      [(u ''https://aonprd.com/MonsterDisplay.aspx?ItemName=Goblin'', JObj [(u ''title2'', JStr (u ''Goblin''))])]
   = (\<lparr>files = [u ''bestiary/Goblin.md'' \<mapsto> [u ''old content'']],
       console = [Out (D (u ''ERROR: file bestiary/Goblin.md already exists while processing key https://aonprd.com/MonsterDisplay.aspx?ItemName=Goblin''))]\<rparr>, None)"
proof -
  have p: "prepare (u ''bestiary/'') (u ''https://aonprd.com/MonsterDisplay.aspx?ItemName=Goblin'')
             (JObj [(u ''title2'', JStr (u ''Goblin''))])
           = Inr (u ''bestiary/Goblin.md'', JObj [(u ''title2'', JStr (u ''Goblin''))])"
    by code_simp
  have f: "files \<lparr>files = [u ''bestiary/Goblin.md'' \<mapsto> [u ''old content'']], console = []\<rparr>
             (u ''bestiary/Goblin.md'') = Some [u ''old content'']"
    by simp
  show ?thesis
    using existing_file_refused [OF p f, of "\<lambda>c. True" "[]"]
    by (simp add: u_def)
qed

section \<open>Records without a key that is read untested\<close>

lemma u_eq_iff [simp]: "u a = u b \<longleftrightarrow> a = b"
proof -
  have "inj (of_char :: char \<Rightarrow> nat)"
    by (rule inj_of_char)
  then show ?thesis
    by (simp add: u_def inj_map_eq_map)
qed

lemma map_of_del: "f \<noteq> k \<Longrightarrow> map_of (filter (\<lambda>kv. fst kv \<noteq> f) kvs) k = map_of kvs k"
  by (induction kvs) auto

lemma map_of_del_same: "map_of (filter (\<lambda>kv. fst kv \<noteq> f) kvs) f = None"
  by (induction kvs) auto

lemma sub_s_del: "f \<noteq> k \<Longrightarrow> sub_s (del_key f (JObj kvs)) k = sub_s (JObj kvs) k"
  by (simp add: sub_s_def del_key_def map_of_del)

lemma sub_s_del_same: "sub_s (del_key f (JObj kvs)) f = Inl (KeyError (JStr f))"
  by (simp add: sub_s_def del_key_def map_of_del_same)

lemma py_in_del: "f \<noteq> k \<Longrightarrow> py_in_s k (del_key f (JObj kvs)) = py_in_s k (JObj kvs)"
  by (auto simp: py_in_s_def del_key_def)

lemma py_in_del_same: "py_in_s f (del_key f (JObj kvs)) = Inr False"
  by (auto simp: py_in_s_def del_key_def)

lemmas del_rules = sub_s_del py_in_del sub2_def when_in_def

lemma source_line_del:
  "f \<noteq> u ''sources'' \<Longrightarrow> source_line sd (del_key f (JObj kvs)) = source_line sd (JObj kvs)"
  by (simp add: source_line_def del_rules cong: if_cong)

lemma print_field_del:
  "f \<noteq> key \<Longrightarrow> print_field P label key (del_key f (JObj kvs)) = print_field P label key (JObj kvs)"
  by (simp add: print_field_def del_rules cong: if_cong)

lemma print_optional_del:
  "f \<noteq> key \<Longrightarrow>
   print_optional P label key (del_key f (JObj kvs)) = print_optional P label key (JObj kvs)"
  by (simp add: print_optional_def print_field_def del_rules cong: if_cong)

lemma print_joined_del:
  "f \<noteq> key \<Longrightarrow> print_joined label key (del_key f (JObj kvs)) = print_joined label key (JObj kvs)"
  by (simp add: print_joined_def del_rules cong: if_cong)

lemma subtypes_line_del:
  "f \<noteq> u ''subtypes'' \<Longrightarrow> subtypes_line (del_key f (JObj kvs)) = subtypes_line (JObj kvs)"
  by (simp add: subtypes_line_def del_rules cong: if_cong)

lemma initiative_line_del:
  "f \<noteq> u ''initiative'' \<Longrightarrow>
   initiative_line P (del_key f (JObj kvs)) = initiative_line P (JObj kvs)"
  by (simp add: initiative_line_def del_rules cong: if_cong)

lemma perception_line_del:
  "f \<noteq> u ''skills'' \<Longrightarrow> perception_line (del_key f (JObj kvs)) = perception_line (JObj kvs)"
  by (simp add: perception_line_def del_rules cong: if_cong)

lemma senses_line_del:
  "f \<noteq> u ''senses'' \<Longrightarrow> senses_line P (del_key f (JObj kvs)) = senses_line P (JObj kvs)"
  by (simp add: senses_line_def del_rules cong: if_cong)

lemma auras_line_del:
  "f \<noteq> u ''auras'' \<Longrightarrow> auras_line (del_key f (JObj kvs)) = auras_line (JObj kvs)"
  by (simp add: auras_line_def del_rules cong: if_cong)

lemma ac_line_del:
  "f \<noteq> u ''AC'' \<Longrightarrow> ac_line P (del_key f (JObj kvs)) = ac_line P (JObj kvs)"
  by (simp add: ac_line_def ac_text_def del_rules cong: if_cong)

lemma hp_lines_del:
  "f \<noteq> u ''HP'' \<Longrightarrow> hp_lines P (del_key f (JObj kvs)) = hp_lines P (JObj kvs)"
  by (simp add: hp_lines_def del_rules cong: if_cong)

lemma saves_lines_del:
  "f \<noteq> u ''saves'' \<Longrightarrow> saves_lines (del_key f (JObj kvs)) = saves_lines (JObj kvs)"
  by (simp add: saves_lines_def saves_text_def del_rules cong: if_cong)

lemma resistances_line_del:
  "f \<noteq> u ''resistances'' \<Longrightarrow>
   resistances_line P (del_key f (JObj kvs)) = resistances_line P (JObj kvs)"
  by (simp add: resistances_line_def del_rules cong: if_cong)

lemma dr_line_del:
  "f \<noteq> u ''DR'' \<Longrightarrow> dr_line P (del_key f (JObj kvs)) = dr_line P (JObj kvs)"
  by (simp add: dr_line_def del_rules cong: if_cong)

lemma speed_line_del:
  "f \<noteq> u ''speeds'' \<Longrightarrow> speed_line P (del_key f (JObj kvs)) = speed_line P (JObj kvs)"
  by (simp add: speed_line_def del_rules cong: if_cong)

lemma attack_line_del:
  "f \<noteq> u ''attacks'' \<Longrightarrow>
   attack_line label kind (del_key f (JObj kvs)) = attack_line label kind (JObj kvs)"
  by (simp add: attack_line_def has_attack_def attack_texts_def del_rules cong: if_cong)

lemma special_attacks_line_del:
  "f \<noteq> u ''attacks'' \<Longrightarrow>
   special_attacks_line (del_key f (JObj kvs)) = special_attacks_line (JObj kvs)"
  by (simp add: special_attacks_line_def has_attack_def del_rules cong: if_cong)

lemma space_line_del:
  "f \<noteq> u ''space'' \<Longrightarrow> space_line P (del_key f (JObj kvs)) = space_line P (JObj kvs)"
  by (simp add: space_line_def del_rules cong: if_cong)

lemma reach_line_del:
  "f \<noteq> u ''reach'' \<Longrightarrow> f \<noteq> u ''reach_other'' \<Longrightarrow>
   reach_line P (del_key f (JObj kvs)) = reach_line P (JObj kvs)"
  by (simp add: reach_line_def del_rules cong: if_cong)

lemma tactics_block_del:
  "f \<noteq> u ''tactics'' \<Longrightarrow> tactics_block P (del_key f (JObj kvs)) = tactics_block P (JObj kvs)"
  by (simp add: tactics_block_def del_rules cong: if_cong)

lemma ability_scores_line_del:
  "f \<noteq> u ''ability_scores'' \<Longrightarrow>
   ability_scores_line P (del_key f (JObj kvs)) = ability_scores_line P (JObj kvs)"
  by (simp add: ability_scores_line_def del_rules cong: if_cong)

lemma maneuver_line_del:
  "f \<noteq> key \<Longrightarrow> f \<noteq> key_other \<Longrightarrow>
   maneuver_line P label key key_other (del_key f (JObj kvs)) =
   maneuver_line P label key key_other (JObj kvs)"
  by (simp add: maneuver_line_def print_field_def del_rules cong: if_cong)

lemmas section_del =
  source_line_del print_field_del print_optional_del print_joined_del subtypes_line_del
  initiative_line_del perception_line_del senses_line_del auras_line_del ac_line_del
  hp_lines_del saves_lines_del resistances_line_del dr_line_del speed_line_del
  attack_line_del special_attacks_line_del space_line_del reach_line_del tactics_block_del
  ability_scores_line_del maneuver_line_del

text \<open>The statement that reads the missing key raises.\<close>

lemma snd_throw [simp]: "snd (throw e) = Some e"
  by (simp add: throw_def)

lemma snd_emit [simp]: "snd (emit l) = None"
  by (simp add: emit_def)

lemma snd_skip [simp]: "snd skip = None"
  by (simp add: skip_def)

lemma snd_seq: "snd (seq a b) = (case snd a of None \<Rightarrow> snd b | Some e \<Rightarrow> Some e)"
  by (simp add: seq_def split: option.splits)

lemma snd_seq_None [simp]: "snd (seq a b) = None \<longleftrightarrow> snd a = None \<and> snd b = None"
  by (simp add: snd_seq split: option.splits)

lemma snd_seq_first: "snd a = None \<Longrightarrow> snd (seq a b) = snd b"
  by (simp add: snd_seq)

lemma snd_seq_fail: "snd a = Some e \<Longrightarrow> snd (seq a b) = Some e"
  by (simp add: snd_seq)

lemma print_field_missing:
  "print_field P label f (del_key f (JObj kvs)) = throw (KeyError (JStr f))"
  by (simp add: print_field_def sub_s_del_same)

lemma source_line_missing:
  "source_line sd (del_key (u ''sources'') (JObj kvs)) = throw (KeyError (JStr (u ''sources'')))"
  by (simp add: source_line_def sub_s_del_same)

lemma initiative_line_missing:
  "initiative_line P (del_key (u ''initiative'') (JObj kvs)) =
   throw (KeyError (JStr (u ''initiative'')))"
  by (simp add: initiative_line_def sub2_def sub_s_del_same)

lemma perception_line_missing:
  "perception_line (del_key (u ''skills'') (JObj kvs)) = throw (KeyError (JStr (u ''skills'')))"
  by (simp add: perception_line_def sub_s_del_same)

lemma ac_line_missing:
  "ac_line P (del_key (u ''AC'') (JObj kvs)) = throw (KeyError (JStr (u ''AC'')))"
  by (simp add: ac_line_def ac_text_def sub2_def sub_s_del_same)

lemma hp_lines_missing:
  "hp_lines P (del_key (u ''HP'') (JObj kvs)) = throw (KeyError (JStr (u ''HP'')))"
  by (simp add: hp_lines_def sub_s_del_same)

lemma saves_lines_missing:
  "saves_lines (del_key (u ''saves'') (JObj kvs)) = throw (KeyError (JStr (u ''saves'')))"
  by (simp add: saves_lines_def saves_text_def sub2_def sub_s_del_same)

lemma speed_line_missing:
  "speed_line P (del_key (u ''speeds'') (JObj kvs)) = throw (KeyError (JStr (u ''speeds'')))"
  by (simp add: speed_line_def sub_s_del_same)

lemma ability_scores_line_missing:
  "ability_scores_line P (del_key (u ''ability_scores'') (JObj kvs)) =
   throw (KeyError (JStr (u ''ability_scores'')))"
  by (simp add: ability_scores_line_def sub2_def sub_s_del_same)

lemma maneuver_line_missing:
  assumes "f \<noteq> key_other"
  shows "snd (maneuver_line P label f key_other (del_key f (JObj kvs))) =
         Some (KeyError (JStr f))"
proof -
  have "py_in_s key_other (del_key f (JObj kvs)) = py_in_s key_other (JObj kvs)"
    using assms by (rule py_in_del)
  also have "\<dots> = Inr (key_other \<in> set (map fst kvs))"
    by (simp add: py_in_s_def)
  finally show ?thesis
    by (simp add: maneuver_line_def print_field_def sub_s_del_same cong: if_cong)
qed

lemmas section_missing =
  print_field_missing source_line_missing initiative_line_missing perception_line_missing
  ac_line_missing hp_lines_missing saves_lines_missing speed_line_missing
  ability_scores_line_missing

lemma formats_title:
  assumes "snd (write_monster_to_file P monster_in sd url) = None"
  shows "\<exists>name. sub_s monster_in (u ''title2'') = Inr name"
  using assms by (cases "sub_s monster_in (u ''title2'')") (simp_all add: write_monster_to_file_def)

lemma formats_sections:
  assumes "snd (write_monster_to_file P monster_in sd url) = None"
    and "sub_s monster_in (u ''title2'') = Inr name"
  shows "snd (seqs [front_matter P name,
                source_line sd monster_in,
                print_field P (u ''Monster_CR:'') (u ''CR'') monster_in,
                emit (sp [u ''name:'', py_str P name]),
                print_field P (u ''Monster_XP:'') (u ''XP'') monster_in,
                print_optional P (u ''race:'') (u ''race'') monster_in,
                print_joined (u ''class:'') (u ''classes'') monster_in,
                print_field P (u ''alignment:'') (u ''alignment'') monster_in,
                print_field P (u ''size:'') (u ''size'') monster_in,
                print_field P (u ''type:'') (u ''type'') monster_in,
                subtypes_line monster_in,
                initiative_line P monster_in,
                perception_line monster_in,
                senses_line P monster_in,
                auras_line monster_in,
                ac_line P monster_in,
                hp_lines P monster_in,
                saves_lines monster_in,
                print_joined (u ''immune:'') (u ''immunities'') monster_in,
                resistances_line P monster_in,
                dr_line P monster_in,
                print_joined (u ''defensive_abilities:'') (u ''defensive_abilities'') monster_in,
                print_optional P (u ''SR:'') (u ''SR'') monster_in,
                print_joined (u ''weak:'') (u ''weaknesses'') monster_in,
                speed_line P monster_in,
                attack_line (u ''melee:'') (u ''melee'') monster_in,
                attack_line (u ''ranged:'') (u ''ranged'') monster_in,
                special_attacks_line monster_in,
                space_line P monster_in,
                reach_line P monster_in,
                tactics_block P monster_in,
                ability_scores_line P monster_in,
                print_field P (u ''BAB:'') (u ''BAB'') monster_in,
                maneuver_line P (u ''CMB:'') (u ''CMB'') (u ''CMB_other'') monster_in]) = None"
  using assms by (simp add: write_monster_to_file_def)

text \<open>What a statement before the skills block prints goes to the file.\<close>

lemma ci_Nil [simp]: "console_items [] = []"
  by (simp add: console_items_def)

lemma ci_F [simp]: "console_items (F l # os) = console_items os"
  by (simp add: console_items_def)

lemma ci_emit [simp]: "console_items (fst (emit l)) = []"
  by (simp add: emit_def console_items_def)

lemma ci_skip [simp]: "console_items (fst skip) = []"
  by (simp add: skip_def console_items_def)

lemma ci_throw [simp]: "console_items (fst (throw e)) = []"
  by (simp add: throw_def console_items_def)

lemma ci_seq:
  "console_items (fst (seq a b)) =
   (if snd a = None then console_items (fst a) @ console_items (fst b) else console_items (fst a))"
  by (auto simp: seq_def console_items_def split: option.splits)

lemma ci_seq_quiet:
  "console_items (fst a) = [] \<Longrightarrow> console_items (fst b) = [] \<Longrightarrow>
   console_items (fst (seq a b)) = []"
  by (simp add: ci_seq)

lemma ci_with_val:
  "(\<And>v. console_items (fst (f v)) = []) \<Longrightarrow> console_items (fst (with_val m f)) = []"
  by (cases m) simp_all

lemma ci_when_in:
  "console_items (fst body) = [] \<Longrightarrow> console_items (fst (when_in k c body)) = []"
  by (simp add: when_in_def ci_with_val)

lemma ci_seqs:
  "(\<And>r. r \<in> set rs \<Longrightarrow> console_items (fst r) = []) \<Longrightarrow> console_items (fst (seqs rs)) = []"
  by (induction rs) (simp_all add: ci_seq_quiet)

lemma ci_to_desc [simp]: "console_items (fst (to_desc P x)) = []"
  by (simp add: to_desc_def)

lemmas ci_intros = ci_with_val ci_when_in ci_seq_quiet ci_seqs

lemma ci_front_matter [simp]: "console_items (fst (front_matter P name)) = []"
  by (simp add: front_matter_def ci_seq)

lemma ci_source_line [simp]: "console_items (fst (source_line sd m)) = []"
  by (auto simp: source_line_def intro!: ci_intros split: json.splits)

lemma ci_print_field [simp]: "console_items (fst (print_field P label key m)) = []"
  by (auto simp: print_field_def intro!: ci_intros)

lemma ci_print_optional [simp]: "console_items (fst (print_optional P label key m)) = []"
  by (auto simp: print_optional_def intro!: ci_intros)

lemma ci_print_joined [simp]: "console_items (fst (print_joined label key m)) = []"
  by (auto simp: print_joined_def intro!: ci_intros)

lemma ci_subtypes_line [simp]: "console_items (fst (subtypes_line m)) = []"
  by (auto simp: subtypes_line_def intro!: ci_intros)

lemma ci_initiative_line [simp]: "console_items (fst (initiative_line P m)) = []"
  by (auto simp: initiative_line_def intro!: ci_intros)

lemma ci_perception_line [simp]: "console_items (fst (perception_line m)) = []"
  by (auto simp: perception_line_def intro!: ci_intros)

lemma ci_senses_line [simp]: "console_items (fst (senses_line P m)) = []"
  by (auto simp: senses_line_def intro!: ci_intros)

lemma ci_auras_line [simp]: "console_items (fst (auras_line m)) = []"
  by (auto simp: auras_line_def intro!: ci_intros)

lemma ci_ac_line [simp]: "console_items (fst (ac_line P m)) = []"
  by (auto simp: ac_line_def intro!: ci_intros)

lemma ci_hp_lines [simp]: "console_items (fst (hp_lines P m)) = []"
  by (auto simp: hp_lines_def intro!: ci_intros)

lemma ci_saves_lines [simp]: "console_items (fst (saves_lines m)) = []"
  by (auto simp: saves_lines_def intro!: ci_intros)

lemma ci_resistances_line [simp]: "console_items (fst (resistances_line P m)) = []"
  by (auto simp: resistances_line_def intro!: ci_intros)

lemma ci_dr_line [simp]: "console_items (fst (dr_line P m)) = []"
  by (auto simp: dr_line_def intro!: ci_intros)

lemma ci_speed_line [simp]: "console_items (fst (speed_line P m)) = []"
  by (auto simp: speed_line_def intro!: ci_intros)

lemma ci_attack_line [simp]: "console_items (fst (attack_line label kind m)) = []"
  by (auto simp: attack_line_def intro!: ci_intros)

lemma ci_special_attacks_line [simp]: "console_items (fst (special_attacks_line m)) = []"
  by (auto simp: special_attacks_line_def intro!: ci_intros)

lemma ci_space_line [simp]: "console_items (fst (space_line P m)) = []"
  by (auto simp: space_line_def intro!: ci_intros)

lemma ci_reach_line [simp]: "console_items (fst (reach_line P m)) = []"
  by (auto simp: reach_line_def intro!: ci_intros)

lemma ci_tactics_block [simp]: "console_items (fst (tactics_block P m)) = []"
  by (auto simp: tactics_block_def name_line_def intro!: ci_intros)

lemma ci_ability_scores_line [simp]: "console_items (fst (ability_scores_line P m)) = []"
  by (auto simp: ability_scores_line_def intro!: ci_intros)

lemma ci_maneuver_line [simp]: "console_items (fst (maneuver_line P label key other m)) = []"
  by (auto simp: maneuver_line_def intro!: ci_intros)

text \<open>
  A record that formats without an exception, less one of the keys that are read
  without a test: the formatter ends with the \<^verbatim>\<open>KeyError\<close> of that key, and has printed
  nothing on the standard output.
\<close>

lemma missing_key:
  assumes ok: "snd (write_monster_to_file P (JObj kvs) sd url) = None"
    and f: "f \<in> set mandatory_fields \<or> f = u ''skills'' \<or> f = u ''sources''"
  shows "snd (write_monster_to_file P (del_key f (JObj kvs)) sd url) = Some (KeyError (JStr f))
       \<and> console_items (fst (write_monster_to_file P (del_key f (JObj kvs)) sd url)) = []"
proof -
  obtain name where n: "sub_s (JObj kvs) (u ''title2'') = Inr name"
    using formats_title [OF ok] by blast
  note secs = formats_sections [OF ok n]
  from f have cases: "f = u ''title2'' \<or> f = u ''CR'' \<or> f = u ''XP'' \<or> f = u ''alignment''
      \<or> f = u ''size'' \<or> f = u ''type'' \<or> f = u ''initiative'' \<or> f = u ''AC'' \<or> f = u ''HP''
      \<or> f = u ''saves'' \<or> f = u ''ability_scores'' \<or> f = u ''BAB'' \<or> f = u ''CMB''
      \<or> f = u ''CMD'' \<or> f = u ''speeds'' \<or> f = u ''skills'' \<or> f = u ''sources''"
    by (auto simp: mandatory_fields_def)
  show ?thesis
    apply (insert secs n cases)
    apply (elim disjE)
    apply (simp_all add: write_monster_to_file_def sub_s_del sub_s_del_same section_del
        section_missing maneuver_line_missing snd_seq_first snd_seq_fail ci_seq)
    done
qed

section \<open>Fields read before they are tested (C2)\<close>

lemma sample_formats:
  "snd (write_monster_to_file (\<lambda>c. True) sample_monster True (Some sample_key)) = None"
  by code_simp

lemma sample_prepare:
  "prepare (u ''bestiary/'') sample_key sample_monster = Inr (u ''bestiary/Goblin.md'', sample_monster)"
  by code_simp

text \<open>
  C2. The sample record has every field of the required set and formats without an
  exception. Without its \<^verbatim>\<open>skills\<close> field the formatter raises \<^verbatim>\<open>KeyError('skills')\<close> (line
  145 reads the field before the test of line 315), and without its \<^verbatim>\<open>sources\<close> field it
  raises \<^verbatim>\<open>KeyError('sources')\<close> (line 98, before the test of line 474).
\<close>

theorem skills_and_sources_unguarded:
  "snd (write_monster_to_file (\<lambda>c. True) sample_monster True (Some sample_key)) = None
   \<and> snd (write_monster_to_file (\<lambda>c. True) (del_key (u ''skills'') sample_monster) True
           (Some sample_key)) = Some (KeyError (JStr (u ''skills'')))
   \<and> snd (write_monster_to_file (\<lambda>c. True) (del_key (u ''sources'') sample_monster) True
           (Some sample_key)) = Some (KeyError (JStr (u ''sources'')))"
  using sample_formats
    missing_key [OF sample_formats [unfolded sample_monster_def], of "u ''skills''"]
    missing_key [OF sample_formats [unfolded sample_monster_def], of "u ''sources''"]
  by (simp add: sample_monster_def)

section \<open>A missing mandatory field in the batch (C6)\<close>

lemma dict_set_del:
  "f \<noteq> k \<Longrightarrow>
   dict_set (filter (\<lambda>kv. fst kv \<noteq> f) kvs) k v = filter (\<lambda>kv. fst kv \<noteq> f) (dict_set kvs k v)"
  by (induction kvs) auto

lemma prepare_del:
  assumes "prepare outpath key (JObj kvs) = Inr (fn, m)" and "f \<noteq> u ''title2''"
  shows "prepare outpath key (del_key f (JObj kvs)) = Inr (fn, del_key f m)"
proof -
  have t: "sub_s (del_key f (JObj kvs)) (u ''title2'') = sub_s (JObj kvs) (u ''title2'')"
    using assms(2) by (simp add: sub_s_del)
  have d: "del_key f (JObj kvs) = JObj (filter (\<lambda>kv. fst kv \<noteq> f) kvs)"
    by (simp add: del_key_def)
  show ?thesis
    using assms
    unfolding prepare_def t
    by (auto simp: d del_key_def dict_set_del ebind_eq_Inr split: if_splits)
qed

lemma prepare_result_JObj:
  assumes "prepare outpath key (JObj kvs) = Inr (fn, m)"
  shows "\<exists>kvs'. m = JObj kvs'"
  using assms by (auto simp: prepare_def ebind_eq_Inr split: if_splits)

lemma prepare_no_title:
  "count_list key 47 \<ge> 3 \<Longrightarrow>
   prepare outpath key (del_key (u ''title2'') (JObj kvs)) = Inl (KeyError (JStr (u ''title2'')))"
  by (simp add: prepare_def sub_s_del_same)

lemma prepare_slashes:
  assumes "prepare outpath key monster_in = Inr d"
  shows "count_list key 47 \<ge> 3"
  using assms by (auto simp: prepare_def split: if_splits)

lemma process_record_caught:
  assumes "prepare outpath key (JObj kvs) = Inr (fn, m)"
    and "files w fn = None"
    and "snd (write_monster_to_file P m True (Some key)) = Some e"
    and "caught e"
  shows "process_record P outpath w (key, JObj kvs) =
           (w\<lparr>files := (files w)(fn \<mapsto> file_lines (fst (write_monster_to_file P m True (Some key)))),
               console := console w @ console_items (fst (write_monster_to_file P m True (Some key)))
                            @ [DErr e key]\<rparr>, None)"
  using assms
  by (simp add: process_record_def py_iter_def keys_hashable try_body_def write_monster_def Let_def)

text \<open>
  C6, as the code has it. Take a record that the batch loop handles without an error: its
  key has the three slashes line 571 needs, its title is a string, it formats without an
  exception; and let its destination not exist yet. Without one of its mandatory fields,
  the formatter ends with the \<^verbatim>\<open>KeyError\<close> of that field, the console gets the one line
  \<^verbatim>\<open>ERROR:  <the field> with <the key>\<close>, no other file is touched, and the batch goes on
  with the records that follow.
\<close>

theorem missing_mandatory_field_logged:
  assumes "f \<in> set mandatory_fields"
    and "prepare outpath key (JObj kvs) = Inr (fn, m)"
    and "snd (write_monster_to_file P m True (Some key)) = None"
    and "files w fn = None"
  shows "process_batch P outpath w ((key, del_key f (JObj kvs)) # rest) =
           process_batch P outpath
             ((if f = u ''title2'' then w
               else w\<lparr>files := (files w)(fn \<mapsto>
                        file_lines (fst (write_monster_to_file P (del_key f m) True (Some key))))\<rparr>)
              \<lparr>console := console w @ [DErr (KeyError (JStr f)) key]\<rparr>)
             rest
       \<and> process_record P outpath w (key, del_key f (JObj kvs)) =
           ((if f = u ''title2'' then w
             else w\<lparr>files := (files w)(fn \<mapsto>
                      file_lines (fst (write_monster_to_file P (del_key f m) True (Some key))))\<rparr>)
            \<lparr>console := console w @ [DErr (KeyError (JStr f)) key]\<rparr>, None)
       \<and> (f = u ''title2'' \<longrightarrow>
            prepare outpath key (del_key f (JObj kvs)) = Inl (KeyError (JStr f)))
       \<and> (f \<noteq> u ''title2'' \<longrightarrow>
            prepare outpath key (del_key f (JObj kvs)) = Inr (fn, del_key f m)
            \<and> snd (write_monster_to_file P (del_key f m) True (Some key)) = Some (KeyError (JStr f)))"
proof (cases "f = u ''title2''")
  case True
  have p: "prepare outpath key (del_key f (JObj kvs)) = Inl (KeyError (JStr f))"
    unfolding True using prepare_slashes [OF assms(2)] by (rule prepare_no_title)
  then have "process_record P outpath w (key, del_key f (JObj kvs)) =
        (w\<lparr>console := console w @ [DErr (KeyError (JStr f)) key]\<rparr>, None)"
    by (simp add: process_record_def del_key_def py_iter_def keys_hashable try_body_def caught_def)
  with p True show ?thesis
    by simp
next
  case False
  obtain kvs' where m: "m = JObj kvs'"
    using prepare_result_JObj [OF assms(2)] by blast
  define r where "r = write_monster_to_file P (del_key f m) True (Some key)"
  have p: "prepare outpath key (del_key f (JObj kvs)) = Inr (fn, del_key f m)"
    by (rule prepare_del [OF assms(2) False])
  have p': "prepare outpath key (JObj (filter (\<lambda>kv. fst kv \<noteq> f) kvs)) = Inr (fn, del_key f m)"
    using p by (simp add: del_key_def)
  have fails: "snd r = Some (KeyError (JStr f))" and quiet: "console_items (fst r) = []"
    using missing_key [of P kvs' True "Some key" f] assms(1,3)
    by (simp_all add: m r_def)
  have "process_record P outpath w (key, del_key f (JObj kvs)) =
          (w\<lparr>files := (files w)(fn \<mapsto> file_lines (fst r)),
              console := console w @ [DErr (KeyError (JStr f)) key]\<rparr>, None)"
    using process_record_caught [OF p' assms(4), of P "KeyError (JStr f)"] fails quiet
    by (simp add: r_def del_key_def caught_def)
  with p fails False show ?thesis
    by (simp add: r_def)
qed

theorem missing_mandatory_field_logged_witness:
  "console (fst (process_batch (\<lambda>c. True) (u ''bestiary/'') \<lparr>files = Map.empty, console = []\<rparr>
           [(sample_key, del_key (u ''CR'') sample_monster)]))
     = [DErr (KeyError (JStr (u ''CR''))) sample_key]
   \<and> snd (process_batch (\<lambda>c. True) (u ''bestiary/'') \<lparr>files = Map.empty, console = []\<rparr>
           [(sample_key, del_key (u ''CR'') sample_monster)]) = None
   \<and> snd (write_monster_to_file (\<lambda>c. True) (del_key (u ''CR'') sample_monster) True
           (Some sample_key)) = Some (KeyError (JStr (u ''CR'')))"
proof -
  have m: "u ''CR'' \<in> set mandatory_fields"
    by (simp add: mandatory_fields_def)
  have f: "files \<lparr>files = Map.empty, console = []\<rparr> (u ''bestiary/Goblin.md'') = None"
    by simp
  have ne: "u ''CR'' \<noteq> u ''title2''"
    by simp
  note t = missing_mandatory_field_logged
    [OF m sample_prepare [unfolded sample_monster_def] sample_formats [unfolded sample_monster_def] f,
     of "[]", folded sample_monster_def]
  from t have a: "process_batch (\<lambda>c. True) (u ''bestiary/'') \<lparr>files = Map.empty, console = []\<rparr>
           [(sample_key, del_key (u ''CR'') sample_monster)] =
         (\<lparr>files = (Map.empty)(u ''bestiary/Goblin.md'' \<mapsto>
              file_lines (fst (write_monster_to_file (\<lambda>c. True) (del_key (u ''CR'') sample_monster)
                 True (Some sample_key)))),
           console = [DErr (KeyError (JStr (u ''CR''))) sample_key]\<rparr>, None)"
    by (simp add: ne del: process_batch.simps(2))
  from t ne have b: "snd (write_monster_to_file (\<lambda>c. True) (del_key (u ''CR'') sample_monster) True
           (Some sample_key)) = Some (KeyError (JStr (u ''CR'')))"
    by blast
  from a b show ?thesis
    by simp
qed

text \<open>
  C6 as stated fails, in two ways. When the destination of a record without \<^verbatim>\<open>CR\<close> exists,
  nothing is formatted and the console names the file, not the field. When a record
  without \<^verbatim>\<open>CR\<close> has an empty sources list, line 98 raises \<^verbatim>\<open>IndexError\<close>, which line 580
  does not catch: the run ends there, before the next record.
\<close>

theorem missing_field_counterexample:
  "u ''CR'' \<in> set mandatory_fields
   \<and> sub_s (del_key (u ''CR'') sample_monster) (u ''CR'') = Inl (KeyError (JStr (u ''CR'')))
   \<and> console (fst (process_batch (\<lambda>c. True) (u ''bestiary/'')
          \<lparr>files = [u ''bestiary/Goblin.md'' \<mapsto> [u ''old content'']], console = []\<rparr>
          [(sample_key, del_key (u ''CR'') sample_monster)]))
       = [Out (D (u ''ERROR: file bestiary/Goblin.md already exists while processing key https://aonprd.com/MonsterDisplay.aspx?ItemName=Goblin''))]
   \<and> sub_s (JObj [(u ''title2'', JStr (u ''Goblin'')), (u ''sources'', JList [])]) (u ''CR'')
       = Inl (KeyError (JStr (u ''CR'')))
   \<and> snd (process_batch (\<lambda>c. True) (u ''bestiary/'') \<lparr>files = Map.empty, console = []\<rparr>
          [(sample_key, JObj [(u ''title2'', JStr (u ''Goblin'')), (u ''sources'', JList [])]),
           (u ''https://aonprd.com/MonsterDisplay.aspx?ItemName=Orc'', sample_monster)])
       = Some IndexError"
  by code_simp

section \<open>Spells under each source (C9)\<close>




lemma first_seen_set [simp]: "set (first_seen xs) = set xs"
  by (simp add: first_seen_def)

lemma first_seen_distinct [simp]: "distinct (first_seen xs)"
  by (simp add: first_seen_def)














end
